theory Spec2Isabelle
  imports Main
begin

section \<open>Characters and strings\<close>

text \<open>
  Patterns and templates are Python strings; they are modelled as \<open>string\<close> (a list of
  \<open>char\<close>). A token of the scanners is one character or a short string. The pieces a
  scanner appends to its \<open>current\<close> list are joined with the empty separator at the end, so
  a \<open>current\<close> list is modelled by the concatenation of its pieces.
\<close>

abbreviation bslash :: char where
  "bslash \<equiv> CHR 0x5C"

abbreviation newline :: char where
  "newline \<equiv> CHR 0x0A"

text \<open>\<open>bs s\<close> is the string \<open>s\<close> with a backslash in front: \<open>bs ''Q''\<close> is backslash, Q.\<close>

definition bs :: "string \<Rightarrow> string" where
  "bs s = bslash # s"

text \<open>Python's \<open>sub in text\<close> for strings: \<open>sub\<close> occurs in \<open>text\<close> as a contiguous run.\<close>

fun contains :: "string \<Rightarrow> string \<Rightarrow> bool" where
  "contains sub [] = (sub = [])"
| "contains sub (c # cs) = (take (length sub) (c # cs) = sub \<or> contains sub cs)"

text \<open>\<open>has_pair a b s\<close>: the character \<open>a\<close> is directly followed by \<open>b\<close> somewhere in \<open>s\<close>.\<close>

fun has_pair :: "char \<Rightarrow> char \<Rightarrow> string \<Rightarrow> bool" where
  "has_pair a b (x # y # zs) = ((x = a \<and> y = b) \<or> has_pair a b (y # zs))"
| "has_pair a b [x] = False"
| "has_pair a b [] = False"

text \<open>The number of backslashes \<open>s\<close> ends with.\<close>

definition tail_bs :: "string \<Rightarrow> nat" where
  "tail_bs s = length (takeWhile (\<lambda>c. c = bslash) (rev s))"

section \<open>The host engine's escape function\<close>

text \<open>
  Modelled from the spec: \<open>escape\<close> is \<open>regex.escape\<close> of the host engine, which is not part
  of the repository (spec section 6: \<open>escape(text) -> text\<close>, "literal-ize all
  metacharacters"). The scanners below take the escape function as a parameter; this
  definition is the instance used to run them on concrete patterns: every character other
  than an ASCII letter, a digit or the underscore gets a backslash in front.
\<close>

definition is_alnum :: "char \<Rightarrow> bool" where
  "is_alnum c = (let n = (of_char c :: nat) in
     (48 \<le> n \<and> n \<le> 57) \<or> (65 \<le> n \<and> n \<le> 90) \<or> (97 \<le> n \<and> n \<le> 122) \<or> n = 95)"

fun host_escape :: "string \<Rightarrow> string" where
  "host_escape [] = []"
| "host_escape (c # cs) = (if is_alnum c then c # host_escape cs else bslash # c # host_escape cs)"

section \<open>The quoting pass: \<open>RegexSearchTemplate.process_quotes\<close>\<close>

text \<open>
  The loop of \<open>process_quotes\<close> over the characters of the pattern, with its four local
  variables, and the code after the loop in the equation for the empty rest.
\<close>

fun quotes_loop ::
  "(string \<Rightarrow> string) \<Rightarrow> bool \<Rightarrow> bool \<Rightarrow> string \<Rightarrow> string \<Rightarrow> string \<Rightarrow> string" where
  "quotes_loop esc escaped in_quotes current quoted [] =
     (let quoted1 = (if in_quotes \<and> escaped then quoted @ [bslash] else quoted);
          current1 = (if \<not> (in_quotes \<and> escaped) \<and> escaped then current @ [bslash] else current)
      in if quoted1 \<noteq> [] then current1 @ esc quoted1 else current1)"
| "quotes_loop esc escaped in_quotes current quoted (t # ts) =
     (if \<not> escaped \<and> t = bslash then quotes_loop esc True in_quotes current quoted ts
      else if escaped then
        (if t = CHR ''E'' then
           (if in_quotes then quotes_loop esc False False (current @ esc quoted) [] ts
            else quotes_loop esc False in_quotes current quoted ts)
         else if t = CHR ''Q'' \<and> \<not> in_quotes then quotes_loop esc False True current quoted ts
         else if in_quotes then quotes_loop esc False in_quotes current (quoted @ [bslash, t]) ts
         else quotes_loop esc False in_quotes (current @ [bslash, t]) quoted ts)
      else if in_quotes then quotes_loop esc escaped in_quotes current (quoted @ [t]) ts
      else quotes_loop esc escaped in_quotes (current @ [t]) quoted ts)"

definition process_quotes :: "(string \<Rightarrow> string) \<Rightarrow> string \<Rightarrow> string" where
  "process_quotes esc string = quotes_loop esc False False [] [] string"

section \<open>The token cursor: \<open>RegexSearchTokens\<close>\<close>

text \<open>
  The cursor holds the string and an index; \<open>next\<close> yields the character at the index and
  moves on, or raises \<open>StopIteration\<close> (here: \<open>None\<close>) past the end. The field \<open>current\<close> is
  written and never read, so it is left out. The base class \<open>compat.Tokens\<close> only forwards
  \<open>next\<close> to \<open>iternext\<close>.

  The four \<open>get_...\<close> methods match a compiled regular expression at \<open>index - 1\<close>, the
  place of the token just read. Each of these expressions can match in one way only (its
  repeated units start with different characters and none starts with the character that
  must follow the run), so the match is computed by taking the longest run of units and
  looking at what follows. The result is the matched text and the new index.
\<close>

datatype version = V0 | V1

record sstate =
  index :: nat
  verbose :: bool
  version :: version

definition next_tok :: "string \<Rightarrow> nat \<Rightarrow> (char \<times> nat) option" where
  "next_tok s i = (if i < length s then Some (s ! i, Suc i) else None)"

text \<open>\<open>(?:[Laberup]|V0|V1|-?[imsfwx])+\<close>, and without the \<open>-?\<close> for version 0.\<close>

fun flag_run :: "bool \<Rightarrow> string \<Rightarrow> nat" where
  "flag_run v0 [] = 0"
| "flag_run v0 (c # cs) =
     (if c \<in> set ''Laberup'' \<or> c \<in> set ''imsfwx'' then Suc (flag_run v0 cs)
      else if c = CHR ''V'' then
        (case cs of [] \<Rightarrow> 0
         | d # ds \<Rightarrow> if d = CHR ''0'' \<or> d = CHR ''1'' then Suc (Suc (flag_run v0 ds)) else 0)
      else if c = CHR ''-'' \<and> \<not> v0 then
        (case cs of [] \<Rightarrow> 0
         | d # ds \<Rightarrow> if d \<in> set ''imsfwx'' then Suc (Suc (flag_run v0 ds)) else 0)
      else 0)"

text \<open>\<open>(?:-?[ixmsfw])+\<close>, and \<open>(?:[imsfwx])+\<close> for version 0.\<close>

fun scoped_run :: "bool \<Rightarrow> string \<Rightarrow> nat" where
  "scoped_run v0 [] = 0"
| "scoped_run v0 (c # cs) =
     (if c \<in> set ''ixmsfw'' then Suc (scoped_run v0 cs)
      else if c = CHR ''-'' \<and> \<not> v0 then
        (case cs of [] \<Rightarrow> 0
         | d # ds \<Rightarrow> if d \<in> set ''ixmsfw'' then Suc (Suc (scoped_run v0 ds)) else 0)
      else 0)"

text \<open>\<open>(?:\\.|[^\\:}]+)+\<close>: a backslash with any character but a newline, or other characters.\<close>

fun posix_run :: "string \<Rightarrow> nat" where
  "posix_run [] = 0"
| "posix_run (c # cs) =
     (if c = bslash then
        (case cs of [] \<Rightarrow> 0
         | d # ds \<Rightarrow> if d \<noteq> newline then Suc (Suc (posix_run ds)) else 0)
      else if c \<noteq> CHR '':'' \<and> c \<noteq> CHR ''}'' then Suc (posix_run cs)
      else 0)"

text \<open>\<open>_regex_flags\<close>: \<open>\(\?(?:...)+\)\<close>.\<close>

definition get_flags :: "string \<Rightarrow> nat \<Rightarrow> bool \<Rightarrow> (string \<times> nat) option" where
  "get_flags s i version0 =
     (let r = drop (i - 1) s; n = flag_run version0 (drop 2 r)
      in if take 2 r = ''(?'' \<and> 0 < n \<and> take 1 (drop (2 + n) r) = '')''
         then Some (take (n + 3) r, i - 1 + (n + 3)) else None)"

text \<open>\<open>_scoped_regex_flags\<close>: \<open>\(\?(?:...)+:\<close>.\<close>

definition get_scoped_flags :: "string \<Rightarrow> nat \<Rightarrow> bool \<Rightarrow> (string \<times> nat) option" where
  "get_scoped_flags s i version0 =
     (let r = drop (i - 1) s; n = scoped_run version0 (drop 2 r)
      in if take 2 r = ''(?'' \<and> 0 < n \<and> take 1 (drop (2 + n) r) = '':''
         then Some (take (n + 3) r, i - 1 + (n + 3)) else None)"

text \<open>\<open>_re_comments\<close>: \<open>\(\?\#[^)]*\)\<close>.\<close>

definition get_comments :: "string \<Rightarrow> nat \<Rightarrow> (string \<times> nat) option" where
  "get_comments s i =
     (let r = drop (i - 1) s; n = length (takeWhile (\<lambda>c. c \<noteq> CHR '')'') (drop 3 r))
      in if take 3 r = ''(?#'' \<and> take 1 (drop (3 + n) r) = '')''
         then Some (take (n + 4) r, i - 1 + (n + 4)) else None)"

text \<open>\<open>_re_posix\<close>: \<open>\[:(?:...)+:\]\<close>.\<close>

definition get_posix :: "string \<Rightarrow> nat \<Rightarrow> (string \<times> nat) option" where
  "get_posix s i =
     (let r = drop (i - 1) s; n = posix_run (drop 2 r)
      in if take 2 r = ''[:'' \<and> 0 < n \<and> take 2 (drop (2 + n) r) = '':]''
         then Some (take (n + 4) r, i - 1 + (n + 4)) else None)"

section \<open>The search preprocessor: \<open>RegexSearchTemplate\<close>\<close>

definition new_refs :: "char list" where
  "new_refs = ''eRQE<>''"

definition re_escape :: string where
  "re_escape = bs ''x1b''"

definition re_start_wb :: string where
  "re_start_wb = bs ''b(?='' @ bs ''w)''"

definition re_end_wb :: string where
  "re_end_wb = bs ''b(?<='' @ bs ''w)''"

definition line_break :: string where
  "line_break = ''(?>'' @ bs ''r'' @ bs ''n|'' @ bs ''n|'' @ bs ''x0b|'' @ bs ''f|'' @ bs ''r|''
     @ bs ''x85|'' @ bs ''u2028|'' @ bs ''u2029)''"

definition binary_line_break :: string where
  "binary_line_break = ''(?>'' @ bs ''r'' @ bs ''n|'' @ bs ''n|'' @ bs ''x0b|'' @ bs ''f|'' @ bs ''r|''
     @ bs ''x85)''"

definition re_line_break :: "bool \<Rightarrow> string" where
  "re_line_break binary = (if binary then binary_line_break else line_break)"

text \<open>
  The scanners raise \<open>RetryException\<close> and \<open>GlobalRetryException\<close>; both leave the fields
  of the template as they are at the raise. \<open>OutOfFuel\<close> is not a result of the program: it
  says that the model's recursion budget was used up (see \<open>normal\<close> below).
\<close>

datatype 'a outcome = Done 'a sstate | Retry sstate | GlobalRetry sstate | OutOfFuel

text \<open>\<open>verbose_comment\<close>: the loop runs to the newline or to the end of the input.\<close>

function verbose_comment_loop :: "string \<Rightarrow> nat \<Rightarrow> char \<Rightarrow> bool \<Rightarrow> string \<Rightarrow> string \<times> nat" where
  "verbose_comment_loop s i t escaped current =
     (if t = newline then (current @ [t], i)
      else
        (let escaped1 = (if \<not> escaped \<and> t = bslash then True else if escaped then False else escaped);
             current1 = (if \<not> escaped \<and> t = bslash then current @ [t]
                         else if escaped then (if t \<in> set new_refs then current @ [bslash] else current) @ [t]
                         else current @ [t])
         in case next_tok s i of
              None \<Rightarrow> (current1, i)
            | Some (t1, i1) \<Rightarrow> verbose_comment_loop s i1 t1 escaped1 current1))"
  by pat_completeness auto
termination
  by (relation "measure (\<lambda>(s, i, t, escaped, current). length s - i)")
     (auto simp: next_tok_def split: if_splits)

definition verbose_comment :: "string \<Rightarrow> nat \<Rightarrow> char \<Rightarrow> string \<times> nat" where
  "verbose_comment s i t = verbose_comment_loop s i t False []"

text \<open>\<open>flags\<close>: the analysis of the text of an inline flag group.\<close>

definition flags :: "string \<Rightarrow> sstate \<Rightarrow> unit outcome" where
  "flags text st =
     (let off = (version st = V1 \<and> contains ''-x'' text \<and> verbose st);
          on = (\<not> off \<and> contains ''x'' text \<and> \<not> verbose st);
          st1 = (if off then st\<lparr>verbose := False\<rparr> else if on then st\<lparr>verbose := True\<rparr> else st);
          retry = (off \<or> on);
          to0 = (contains ''V0'' text \<and> version st1 = V1);
          to1 = (\<not> to0 \<and> contains ''V1'' text \<and> version st1 = V0);
          st2 = (if to0 then st1\<lparr>version := V0\<rparr> else if to1 then st1\<lparr>version := V1\<rparr> else st1);
          global_retry = (to0 \<or> to1)
      in if global_retry then GlobalRetry st2 else if retry then Retry st2 else Done () st2)"

text \<open>\<open>reference\<close>: the token after a backslash.\<close>

definition reference :: "bool \<Rightarrow> string \<Rightarrow> nat \<Rightarrow> char \<Rightarrow> string \<times> nat" where
  "reference binary s i t =
     (case next_tok s i of
        None \<Rightarrow> ([t], i)
      | Some (t1, i1) \<Rightarrow>
          (if t1 = CHR ''<'' then (re_start_wb, i1)
           else if t1 = CHR ''>'' then (re_end_wb, i1)
           else if t1 = CHR ''R'' then (re_line_break binary, i1)
           else if t1 = CHR ''e'' then (re_escape, i1)
           else ([bslash, t1], i1)))"


text \<open>
  \<open>char_groups\<close>: the scan of a character class. \<open>cg\<close> holds the cursor index and the local
  variables of the loop; \<open>cg_step\<close> is the \<open>if\<close>/\<open>elif\<close> chain of one iteration (the flag
  says whether it left the loop by \<open>break\<close>). \<open>first\<close> and \<open>sub_first\<close> start as \<open>None\<close>; the
  chain compares them only after it has set them (\<open>found = 1\<close>, \<open>found > 1\<close>).
\<close>

record cg =
  cg_index :: nat
  cg_pos :: nat
  cg_found :: nat
  cg_sub_first :: "nat option"
  cg_escaped :: bool
  cg_first :: "nat option"
  cg_current :: string

definition is_next :: "nat option \<Rightarrow> nat \<Rightarrow> bool" where
  "is_next first pos = (case first of None \<Rightarrow> False | Some f \<Rightarrow> pos = f + 1)"

definition cg_posix :: "bool \<Rightarrow> string \<Rightarrow> nat \<Rightarrow> (string \<times> nat) option" where
  "cg_posix binary s i = (if binary then None else get_posix s i)"

definition cg_step :: "version \<Rightarrow> bool \<Rightarrow> string \<Rightarrow> char \<Rightarrow> cg \<Rightarrow> bool \<times> cg" where
  "cg_step ver binary s t c =
     (if \<not> cg_escaped c \<and> t = bslash then (False, c\<lparr>cg_escaped := True\<rparr>)
      else if cg_escaped c then
        (False, c\<lparr>cg_escaped := False,
                   cg_current := cg_current c @ (if t = CHR ''e'' then re_escape else [bslash, t])\<rparr>)
      else if t = CHR ''['' \<and> cg_found c = 0 then
        (False, c\<lparr>cg_found := cg_found c + 1, cg_first := Some (cg_pos c),
                   cg_current := cg_current c @ [t]\<rparr>)
      else if t = CHR ''['' \<and> cg_found c \<noteq> 0 \<and> ver = V1 then
        (case cg_posix binary s (cg_index c) of
           Some (posix, j) \<Rightarrow>
             (False, c\<lparr>cg_current := cg_current c @ posix, cg_index := j, cg_pos := j - 2\<rparr>)
         | None \<Rightarrow>
             (False, c\<lparr>cg_found := cg_found c + 1, cg_sub_first := Some (cg_pos c),
                        cg_current := cg_current c @ [t]\<rparr>))
      else if t = CHR ''['' then
        (case cg_posix binary s (cg_index c) of
           Some (posix, j) \<Rightarrow>
             (False, c\<lparr>cg_current := cg_current c @ posix, cg_index := j, cg_pos := j - 2\<rparr>)
         | None \<Rightarrow> (False, c\<lparr>cg_current := cg_current c @ [t]\<rparr>))
      else if t = CHR ''^'' \<and> cg_found c = 1 \<and> is_next (cg_first c) (cg_pos c) then
        (False, c\<lparr>cg_current := cg_current c @ [t], cg_first := Some (cg_pos c)\<rparr>)
      else if ver = V1 \<and> t = CHR ''^'' \<and> 1 < cg_found c \<and> is_next (cg_sub_first c) (cg_pos c) then
        (False, c\<lparr>cg_current := cg_current c @ [t], cg_sub_first := Some (cg_pos c)\<rparr>)
      else if t = CHR '']'' \<and> cg_found c = 1 \<and> \<not> is_next (cg_first c) (cg_pos c) then
        (True, c\<lparr>cg_current := cg_current c @ [t], cg_found := 0\<rparr>)
      else if ver = V1 \<and> t = CHR '']'' \<and> 1 < cg_found c \<and> \<not> is_next (cg_sub_first c) (cg_pos c) then
        (False, c\<lparr>cg_found := cg_found c - 1, cg_current := cg_current c @ [t]\<rparr>)
      else (False, c\<lparr>cg_current := cg_current c @ [t]\<rparr>))"

lemma cg_step_index: "cg_step ver binary s t c = (b, c1) \<Longrightarrow> cg_index c \<le> cg_index c1"
  by (auto simp: cg_step_def cg_posix_def get_posix_def Let_def split: if_splits option.splits)

function cg_loop :: "version \<Rightarrow> bool \<Rightarrow> string \<Rightarrow> char \<Rightarrow> cg \<Rightarrow> string \<times> nat" where
  "cg_loop ver binary s t c =
     (case cg_step ver binary s t c of
        (True, c1) \<Rightarrow> (cg_current c1, cg_index c1)
      | (False, c1) \<Rightarrow>
          (case next_tok s (cg_index c1) of
             None \<Rightarrow> (if cg_escaped c1 then cg_current c1 @ [t] else cg_current c1, cg_index c1)
           | Some (t1, i1) \<Rightarrow> cg_loop ver binary s t1 (c1\<lparr>cg_pos := cg_pos c1 + 1, cg_index := i1\<rparr>)))"
  by pat_completeness auto
termination
proof (relation "measure (\<lambda>(ver, binary, s, t, c). length s - cg_index c)", goal_cases)
  case 1
  show ?case by simp
next
  case 2
  then show ?case
    by (auto simp: next_tok_def split: if_splits dest!: cg_step_index [OF sym])
qed

definition char_groups :: "version \<Rightarrow> bool \<Rightarrow> string \<Rightarrow> nat \<Rightarrow> char \<Rightarrow> string \<times> nat" where
  "char_groups ver binary s i t =
     cg_loop ver binary s t
       \<lparr>cg_index = i, cg_pos = i - 1, cg_found = 0, cg_sub_first = None, cg_escaped = False,
        cg_first = None, cg_current = []\<rparr>"

text \<open>
  \<open>normal\<close>, \<open>subgroup\<close> and the two loops of \<open>subgroup\<close> call each other, and the retry loops
  need not end, so the four functions take a budget that every call lowers by one;
  \<open>OutOfFuel\<close> is the result when it is used up.

  \<open>subgroup_retry\<close> is the loop \<open>while retry\<close> of \<open>subgroup\<close>, \<open>subgroup_body\<close> its inner loop
  \<open>while t != ")"\<close>. The inner loop starts with \<open>t = start\<close>, which is never \<open>")"\<close>, and an
  empty \<open>current\<close>, so its first iteration stores \<open>start\<close>; all later iterations find
  \<open>current\<close> non-empty and hand the token to \<open>normal\<close>. \<open>subgroup_body\<close> is the loop from the
  first \<open>next(i)\<close> on.

  \<open>subgroup_flags\<close> is the head of \<open>subgroup\<close>, an inline flag group \<open>(?flags)\<close> or a comment
  \<open>(?#...)\<close>, which returns at once; \<open>subgroup_start\<close> is its scoped flag group, whose
  \<open>RetryException\<close> is caught on the spot; \<open>restore_verbose\<close> is the assignment
  \<open>self.verbose = verbose\<close> after the loops, which an exception skips; \<open>leaf\<close> makes the
  result of a scanner that only moves the cursor.
\<close>

definition flag_text :: "string \<Rightarrow> string" where
  "flag_text text = take (length text - 3) (drop 2 text)"

definition subgroup_flags :: "string \<Rightarrow> sstate \<Rightarrow> string outcome option" where
  "subgroup_flags s st =
     (case get_flags s (index st) (version st = V0) of
        Some (text, j) \<Rightarrow>
          Some (case flags (flag_text text) (st\<lparr>index := j\<rparr>) of
                  Done u st1 \<Rightarrow> Done text st1
                | Retry st1 \<Rightarrow> Retry st1
                | GlobalRetry st1 \<Rightarrow> GlobalRetry st1
                | OutOfFuel \<Rightarrow> OutOfFuel)
      | None \<Rightarrow>
          (case get_comments s (index st) of
             Some (comments, j) \<Rightarrow> Some (Done comments (st\<lparr>index := j\<rparr>))
           | None \<Rightarrow> None))"

definition subgroup_start :: "string \<Rightarrow> sstate \<Rightarrow> char \<Rightarrow> string outcome" where
  "subgroup_start s st t =
     (case get_scoped_flags s (index st) (version st = V0) of
        Some (text, j) \<Rightarrow>
          (case flags (flag_text text) (st\<lparr>index := j\<rparr>) of
             Done u st1 \<Rightarrow> Done text st1
           | Retry st1 \<Rightarrow> Done text st1
           | GlobalRetry st1 \<Rightarrow> GlobalRetry st1
           | OutOfFuel \<Rightarrow> OutOfFuel)
      | None \<Rightarrow> Done [t] st)"

definition restore_verbose :: "bool \<Rightarrow> string outcome \<Rightarrow> string outcome" where
  "restore_verbose v r = (case r of Done x st \<Rightarrow> Done x (st\<lparr>verbose := v\<rparr>) | other \<Rightarrow> other)"

definition leaf :: "string \<times> nat \<Rightarrow> sstate \<Rightarrow> string outcome" where
  "leaf r st = Done (fst r) (st\<lparr>index := snd r\<rparr>)"

function (sequential) normal :: "nat \<Rightarrow> bool \<Rightarrow> string \<Rightarrow> sstate \<Rightarrow> char \<Rightarrow> string outcome"
  and subgroup :: "nat \<Rightarrow> bool \<Rightarrow> string \<Rightarrow> sstate \<Rightarrow> char \<Rightarrow> string outcome"
  and subgroup_retry :: "nat \<Rightarrow> bool \<Rightarrow> string \<Rightarrow> sstate \<Rightarrow> string \<Rightarrow> nat \<Rightarrow> string outcome"
  and subgroup_body :: "nat \<Rightarrow> bool \<Rightarrow> string \<Rightarrow> sstate \<Rightarrow> string \<Rightarrow> string outcome" where
  "normal 0 binary s st t = OutOfFuel"
| "normal (Suc n) binary s st t =
     (if t = bslash then leaf (reference binary s (index st) t) st
      else if t = CHR ''('' then subgroup n binary s st t
      else if verbose st \<and> t = CHR ''#'' then leaf (verbose_comment s (index st) t) st
      else if t = CHR ''['' then leaf (char_groups (version st) binary s (index st) t) st
      else Done [t] st)"
| "subgroup 0 binary s st t = OutOfFuel"
| "subgroup (Suc n) binary s st t =
     (case subgroup_flags s st of
        Some r \<Rightarrow> r
      | None \<Rightarrow>
          (case subgroup_start s st t of
             Done start st1 \<Rightarrow>
               restore_verbose (verbose st) (subgroup_retry n binary s st1 start (index st1))
           | other \<Rightarrow> other))"
| "subgroup_retry 0 binary s st start i0 = OutOfFuel"
| "subgroup_retry (Suc n) binary s st start i0 =
     (case subgroup_body n binary s st start of
        Retry st1 \<Rightarrow> subgroup_retry n binary s (st1\<lparr>index := i0\<rparr>) start i0
      | other \<Rightarrow> other)"
| "subgroup_body 0 binary s st current = OutOfFuel"
| "subgroup_body (Suc n) binary s st current =
     (case next_tok s (index st) of
        None \<Rightarrow> Done current st
      | Some (t, j) \<Rightarrow>
          (if t = CHR '')'' then Done (current @ [t]) (st\<lparr>index := j\<rparr>)
           else
             (case normal n binary s (st\<lparr>index := j\<rparr>) t of
                Done r st1 \<Rightarrow> subgroup_body n binary s st1 (current @ r)
              | other \<Rightarrow> other)))"
  by pat_completeness auto
termination
  by (relation "measure (\<lambda>x. case x of
        Inl (Inl (n, r)) \<Rightarrow> n | Inl (Inr (n, r)) \<Rightarrow> n
      | Inr (Inl (n, r)) \<Rightarrow> n | Inr (Inr (n, r)) \<Rightarrow> n)") auto

text \<open>\<open>main_group\<close>: the loop over the tokens of the whole pattern.\<close>

fun main_group :: "nat \<Rightarrow> bool \<Rightarrow> string \<Rightarrow> sstate \<Rightarrow> string \<Rightarrow> string outcome" where
  "main_group 0 binary s st current = OutOfFuel"
| "main_group (Suc n) binary s st current =
     (case next_tok s (index st) of
        None \<Rightarrow> Done current st
      | Some (t, j) \<Rightarrow>
          (case normal n binary s (st\<lparr>index := j\<rparr>) t of
             Done r st1 \<Rightarrow> main_group n binary s st1 (current @ r)
           | other \<Rightarrow> other))"

text \<open>
  \<open>apply\<close>: the quoting pass, then the loop \<open>while retry\<close> around \<open>main_group\<close>. Both
  exceptions rewind the cursor to 0 and scan again; \<open>verbose\<close> and \<open>version\<close> keep the values
  they had at the raise. \<open>re_version\<close> is \<open>None\<close> for the argument 0, which selects
  \<open>regex.DEFAULT_VERSION\<close> (version 0). A binary pattern is decoded as Latin-1 and the
  result encoded again, which leaves its bytes as they are. The result is \<open>None\<close> when the
  budget does not suffice.
\<close>

fun apply_loop :: "nat \<Rightarrow> bool \<Rightarrow> string \<Rightarrow> sstate \<Rightarrow> string outcome" where
  "apply_loop 0 binary s st = OutOfFuel"
| "apply_loop (Suc n) binary s st =
     (case main_group n binary s st [] of
        Retry st1 \<Rightarrow> apply_loop n binary s (st1\<lparr>index := 0\<rparr>)
      | GlobalRetry st1 \<Rightarrow> apply_loop n binary s (st1\<lparr>index := 0\<rparr>)
      | other \<Rightarrow> other)"

definition default_version :: version where
  "default_version = V0"

definition apply_search ::
  "nat \<Rightarrow> (string \<Rightarrow> string) \<Rightarrow> bool \<Rightarrow> bool \<Rightarrow> version option \<Rightarrow> string \<Rightarrow> string option" where
  "apply_search fuel esc binary re_verbose re_version search =
     (let st = \<lparr>index = 0, verbose = re_verbose,
                version = (case re_version of None \<Rightarrow> default_version | Some v \<Rightarrow> v)\<rparr>;
          string = process_quotes esc search
      in case apply_loop fuel binary string st of Done r st1 \<Rightarrow> Some r | other \<Rightarrow> None)"






section \<open>Errors and Python helpers of the replace side\<close>

text \<open>
  An exception that leaves the library is a value of \<open>error\<close>, with Python's message.
  \<open>HostError\<close> stands for an exception of the host engine's template grammar.
\<close>

datatype error =
    SyntaxError string
  | ValueError string
  | IndexError string
  | TypeError string
  | KeyError string
  | HostError

datatype letter_case = UPPER | LOWER

definition digits :: "char list" where
  "digits = ''0123456789''"

definition octal_digits :: "char list" where
  "octal_digits = ''01234567''"

definition hex_digits :: "char list" where
  "hex_digits = ''0123456789abcdefABCDEF''"

definition lower_letters :: "char list" where
  "lower_letters = ''abcdefghijklmnopqrstuvwxyz''"

definition upper_letters :: "char list" where
  "upper_letters = ''ABCDEFGHIJKLMNOPQRSTUVWXYZ''"

definition ascii_letters :: "char list" where
  "ascii_letters = lower_letters @ upper_letters"

definition is_word :: "char \<Rightarrow> bool" where
  "is_word c = (c \<in> set ascii_letters \<or> c \<in> set digits \<or> c = CHR ''_'')"

text \<open>
  \<open>str.upper\<close> and \<open>str.lower\<close>. The model covers ASCII: the letters a to z and A to Z
  change, every other character stays (Python consults the Unicode tables for the
  characters above 127).
\<close>

definition upper_char :: "char \<Rightarrow> char" where
  "upper_char c = (if c \<in> set lower_letters then char_of (of_char c - (32::nat)) else c)"

definition lower_char :: "char \<Rightarrow> char" where
  "lower_char c = (if c \<in> set upper_letters then char_of (of_char c + (32::nat)) else c)"

definition py_upper :: "string \<Rightarrow> string" where
  "py_upper s = map upper_char s"

definition py_lower :: "string \<Rightarrow> string" where
  "py_lower s = map lower_char s"

text \<open>The value of a digit in a base up to 16, and of a string of digits.\<close>

definition digit_val :: "char \<Rightarrow> nat" where
  "digit_val c =
     (if c \<in> set digits then of_char c - 48
      else if c \<in> set ''abcdef'' then of_char c - 87
      else if c \<in> set ''ABCDEF'' then of_char c - 55
      else 16)"

definition digits_val :: "nat \<Rightarrow> string \<Rightarrow> nat" where
  "digits_val base s = foldl (\<lambda>acc c. acc * base + digit_val c) 0 s"

definition py_space :: "char list" where
  "py_space = [CHR '' '', CHR 0x09, CHR 0x0A, CHR 0x0B, CHR 0x0C, CHR 0x0D]"

definition py_strip :: "string \<Rightarrow> string" where
  "py_strip s = rev (dropWhile (\<lambda>c. c \<in> set py_space) (rev (dropWhile (\<lambda>c. c \<in> set py_space) s)))"

text \<open>
  \<open>int(text, base)\<close> for the bases 2, 8, 10 and 16: surrounding whitespace, an optional
  sign, the prefix of the base (\<open>0b\<close>, \<open>0o\<close>, \<open>0x\<close>, in either case) when the base has one,
  then at least one digit of the base. \<open>None\<close> is Python's \<open>ValueError\<close>. Underscores
  between digits, which newer Python versions accept, are not modelled.
\<close>

definition base_prefix :: "nat \<Rightarrow> char list" where
  "base_prefix base = (if base = 2 then ''bB'' else if base = 8 then ''oO'' else if base = 16 then ''xX'' else [])"

definition py_int :: "string \<Rightarrow> nat \<Rightarrow> int option" where
  "py_int text base =
     (let s = py_strip text;
          neg = (take 1 s = ''-'');
          s1 = (if take 1 s = ''-'' \<or> take 1 s = ''+'' then drop 1 s else s);
          s2 = (if take 1 s1 = ''0'' \<and> length s1 > 1 \<and> s1 ! 1 \<in> set (base_prefix base) then drop 2 s1 else s1)
      in if s2 \<noteq> [] \<and> (\<forall>c \<in> set s2. digit_val c < base)
         then Some (if neg then - int (digits_val base s2) else int (digits_val base s2))
         else None)"

text \<open>Decimal, octal and hexadecimal numerals, and the \<open>%\<close> formats with a minimal width.\<close>

fun numeral_of :: "nat \<Rightarrow> nat \<Rightarrow> nat \<Rightarrow> string" where
  "numeral_of 0 base n = []"
| "numeral_of (Suc fuel) base n =
     (if n < base then [''0123456789abcdef'' ! n]
      else numeral_of fuel base (n div base) @ [''0123456789abcdef'' ! (n mod base)])"

definition show_nat :: "nat \<Rightarrow> nat \<Rightarrow> string" where
  "show_nat base n = numeral_of (Suc n) base n"

definition pad :: "nat \<Rightarrow> string \<Rightarrow> string" where
  "pad width s = replicate (width - length s) (CHR ''0'') @ s"

definition show_int :: "int \<Rightarrow> string" where
  "show_int k = (if k < 0 then ''-'' @ show_nat 10 (nat (- k)) else show_nat 10 (nat k))"

text \<open>Indexing of a Python list, negative indices from the end; \<open>None\<close> is \<open>IndexError\<close>.\<close>

definition py_index :: "'a list \<Rightarrow> int \<Rightarrow> 'a option" where
  "py_index xs k =
     (let n = int (length xs); j = (if k < 0 then n + k else k)
      in if 0 \<le> j \<and> j < n then Some (xs ! nat j) else None)"

section \<open>The template tokenizer: \<open>ReplaceTokens\<close>\<close>

text \<open>
  \<open>iternext\<close> matches one of four compiled expressions behind a backslash and, in format
  mode, \<open>_format_replace_group\<close> at a brace. Their alternatives start with different
  characters (the digits apart, which are tried in the order of the expression), so the
  first alternative that matches is found by looking at the first character. In the
  result of \<open>ref_match\<close> the kind says which group of the expression matched: group 1 (a
  backslash), group 2, group 2 through its inner group 3 (a group reference, format mode
  only) or group 4 (an opening brace, format mode only).
\<close>

datatype ref_kind = G1 | G2 | G3 | G4

text \<open>\<open>(?:<(?:[a-zA-Z]+[a-zA-Z\d_]*|0+|0*[1-9][0-9]?)>)?\<close>: the length of what it matches.\<close>

definition group_name_len :: "string \<Rightarrow> nat" where
  "group_name_len r =
     (case r of
        [] \<Rightarrow> 0
      | c # xs \<Rightarrow>
          if c \<noteq> CHR ''<'' then 0
          else if take 1 xs \<noteq> [] \<and> hd xs \<in> set ascii_letters then
            (let n = length (takeWhile is_word xs)
             in if take 1 (drop n xs) = ''>'' then n + 2 else 0)
          else
            (let z = length (takeWhile (\<lambda>c. c = CHR ''0'') xs); d = drop z xs
             in if 0 < z \<and> take 1 d = ''>'' then z + 2
                else if take 1 d \<noteq> [] \<and> hd d \<in> set ''123456789'' then
                  (if take 1 (drop 1 d) = ''>'' then z + 3
                   else if take 1 (drop 1 d) \<noteq> [] \<and> hd (drop 1 d) \<in> set digits \<and> take 1 (drop 2 d) = ''>''
                   then z + 4 else 0)
                else 0))"

text \<open>\<open>(?:[0-9a-fA-F]{k})?\<close> and \<open>(?:\{[\w ]+\})?\<close>: the text they match.\<close>

definition hex_opt :: "nat \<Rightarrow> string \<Rightarrow> string" where
  "hex_opt k r = (if length (takeWhile (\<lambda>c. c \<in> set hex_digits) (take k r)) = k then take k r else [])"

definition name_opt :: "string \<Rightarrow> string" where
  "name_opt r =
     (let n = length (takeWhile (\<lambda>c. is_word c \<or> c = CHR '' '') (drop 1 r))
      in if take 1 r = ''{'' \<and> 0 < n \<and> take 1 (drop (Suc n) r) = ''}'' then take (n + 2) r else [])"

definition ref_match :: "bool \<Rightarrow> bool \<Rightarrow> string \<Rightarrow> (ref_kind \<times> string) option" where
  "ref_match use_format binary r =
     (case r of
        [] \<Rightarrow> None
      | c # cs \<Rightarrow>
          if c = bslash then Some (G1, [c])
          else if \<not> use_format \<and> length (takeWhile (\<lambda>c. c \<in> set octal_digits) (take 3 r)) = 3
            then Some (G2, take 3 r)
          else if \<not> use_format \<and> c \<in> set ''123456789''
            then Some (G2, c # (if take 1 cs \<noteq> [] \<and> hd cs \<in> set digits then take 1 cs else []))
          else if c \<in> set ''cClLEabfrtnv'' then Some (G2, [c])
          else if \<not> binary \<and> c = CHR ''U'' then Some (G2, c # hex_opt 8 cs)
          else if \<not> binary \<and> c = CHR ''u'' then Some (G2, c # hex_opt 4 cs)
          else if c = CHR ''x'' then Some (G2, c # hex_opt 2 cs)
          else if use_format \<and> c \<in> set octal_digits
            then Some (G2, takeWhile (\<lambda>c. c \<in> set octal_digits) (take 3 r))
          else if c = CHR ''g'' then Some (if use_format then G3 else G2, c # take (group_name_len cs) cs)
          else if \<not> binary \<and> c = CHR ''N'' then Some (G2, c # name_opt cs)
          else if use_format \<and> c = CHR ''{'' then Some (G4, [c])
          else None)"

text \<open>
  \<open>_format_replace_group\<close>: \<open>FG1\<close> is its group 1 (a doubled brace), \<open>FG2\<close> its group 2, a
  brace field with an optional name or index and an optional subscript.
\<close>

datatype format_match = FG1 | FG2 string

definition field_name_len :: "string \<Rightarrow> nat" where
  "field_name_len xs =
     (if take 1 xs \<noteq> [] \<and> hd xs \<in> set ascii_letters then length (takeWhile is_word xs)
      else
        (let z = length (takeWhile (\<lambda>c. c = CHR ''0'') xs); d = drop z xs
         in if take 1 d \<noteq> [] \<and> hd d \<in> set ''123456789''
            then z + 1 + (if take 1 (drop 1 d) \<noteq> [] \<and> hd (drop 1 d) \<in> set digits then 1 else 0)
            else z))"

definition subscript_len :: "string \<Rightarrow> nat" where
  "subscript_len r =
     (let m = length (takeWhile (\<lambda>c. c \<noteq> CHR '']'') (drop 1 r))
      in if take 1 r = ''['' \<and> 0 < m \<and> take 1 (drop (Suc m) r) = '']'' then m + 2 else 0)"

definition format_group_match :: "string \<Rightarrow> format_match option" where
  "format_group_match r =
     (if take 2 r = ''{{'' \<or> take 2 r = ''}}'' then Some FG1
      else if take 1 r = ''{'' then
        (let n = field_name_len (drop 1 r); k = subscript_len (drop (Suc n) r)
         in if take 1 (drop (Suc n + k) r) = ''}'' then Some (FG2 (take (n + k + 2) r)) else None)
      else None)"

definition long_ref_error :: "char \<Rightarrow> error" where
  "long_ref_error c =
     (if c = CHR ''x'' then SyntaxError (''Format for byte is '' @ bs ''xXX!'')
      else if c = CHR ''g'' then SyntaxError (''Format for group is '' @ bs ''g<group_name_or_index>!'')
      else if c = CHR ''N'' then SyntaxError (''Format for Unicode name is '' @ bs ''N{name}!'')
      else if c = CHR ''u'' then SyntaxError (''Format for Unicode is '' @ bs ''uXXXX!'')
      else SyntaxError (''Format for wide Unicode is '' @ bs ''UXXXXXXXX!''))"

text \<open>\<open>iternext\<close>: the token and the new index, \<open>None\<close> for \<open>StopIteration\<close>, or an error.\<close>

definition iternext :: "bool \<Rightarrow> bool \<Rightarrow> string \<Rightarrow> nat \<Rightarrow> error + (string \<times> nat) option" where
  "iternext use_format binary s i =
     (if \<not> i < length s then Inr None
      else if s ! i = bslash then
        (case ref_match use_format binary (drop (i + 1) s) of
           None \<Rightarrow> Inr (Some ([s ! i], i + 1))
         | Some (kind, ref) \<Rightarrow>
             if length ref = 1 \<and> hd ref \<in> set ''uUgxN'' then Inl (long_ref_error (hd ref))
             else
               (let char1 = (if use_format \<and> (kind = G3 \<or> kind = G4) then [s ! i, bslash] else [s ! i]);
                    back = (if use_format \<and> (kind = G3 \<or> kind = G4) then 1 else 0);
                    char2 = (if \<not> use_format \<or> kind \<noteq> G4 then char1 @ ref else char1)
                in Inr (Some (char2, i + length char2 - back))))
      else if use_format \<and> (s ! i = CHR ''{'' \<or> s ! i = CHR ''}'') then
        (case format_group_match (drop i s) of
           None \<Rightarrow> Inl (ValueError ''Single unmatched curly bracket!'')
         | Some FG1 \<Rightarrow> Inr (Some ([s ! i], i + 1 + 1))
         | Some (FG2 t) \<Rightarrow> Inr (Some (t, i + length t)))
      else Inr (Some ([s ! i], i + 1)))"

section \<open>The template compiler: \<open>ReplaceTemplate\<close>\<close>

text \<open>
  The fields of a \<open>ReplaceTemplate\<close> that change while the template is parsed, with the
  index of its token cursor. \<open>result\<close>, the stacks and the slot lists are Python lists; a
  push appends at the end and \<open>pop\<close> takes the last element. A group slot is the slot
  number with the span case, the single case and the capture index.
\<close>

record tstate =
  rindex :: nat
  result :: "string list"
  literal_slots :: "string list"
  group_slots :: "(nat \<times> letter_case option \<times> letter_case option \<times> int) list"
  span_stack :: "letter_case list"
  single_stack :: "letter_case list"
  slot :: nat
  manual :: bool
  auto :: bool
  auto_index :: nat
  end_found :: bool

text \<open>
  What stays fixed during a parse: the two mode flags and \<open>unicodedata.lookup\<close>, which is
  not part of the repository and is taken as a parameter (\<open>None\<close> is its \<open>KeyError\<close>).
\<close>

record config =
  use_format :: bool
  is_binary :: bool
  unicode_lookup :: "string \<Rightarrow> nat option"

datatype tres = TOk tstate | TErr error | TFuel

text \<open>
  \<open>convert_case\<close>. A case that is not \<open>_LOWER\<close> (also \<open>None\<close>) selects the upper case, as
  the conditional expression of the source does.
\<close>

definition convert_case :: "config \<Rightarrow> string \<Rightarrow> letter_case option \<Rightarrow> string" where
  "convert_case cfg val cs =
     (if is_binary cfg then
        map (\<lambda>c. if c \<in> set ascii_letters
                  then (if cs = Some LOWER then lower_char c else upper_char c) else c) val
      else (if cs = Some LOWER then py_lower val else py_upper val))"

text \<open>
  \<open>ord(convert_case(chr(value), case))\<close> for a code point: within ASCII it is the code of
  the converted character; the code points above 127 are left as they are.
\<close>

definition case_ord :: "letter_case option \<Rightarrow> nat \<Rightarrow> nat" where
  "case_ord cs v =
     (if v < 128 then of_char (if cs = Some LOWER then lower_char (char_of v) else upper_char (char_of v))
      else v)"

text \<open>\<open>get_single_stack\<close>: pops until the stack is empty and returns the last value popped.\<close>

fun pop_all :: "letter_case option \<Rightarrow> letter_case list \<Rightarrow> letter_case option" where
  "pop_all single stack = (if stack = [] then single else pop_all (Some (last stack)) (butlast stack))"

definition get_single_stack :: "tstate \<Rightarrow> letter_case option \<times> tstate" where
  "get_single_stack st = (pop_all None (single_stack st), st\<lparr>single_stack := []\<rparr>)"

definition span_top :: "tstate \<Rightarrow> letter_case option" where
  "span_top st = (if span_stack st \<noteq> [] then Some (last (span_stack st)) else None)"

text \<open>
  The common start of \<open>handle_group\<close> and \<open>handle_format_group\<close>: the literal text gathered
  so far becomes a slot of its own, then the reference text is stored.
\<close>

definition flush_literal :: "string list \<Rightarrow> tstate \<Rightarrow> tstate" where
  "flush_literal ref st =
     (if length (result st) > 1
      then st\<lparr>literal_slots := literal_slots st @ [concat (result st)] @ ref, result := [[]],
              slot := slot st + 1\<rparr>
      else st\<lparr>literal_slots := literal_slots st @ ref\<rparr>)"

definition add_group_slot :: "int \<Rightarrow> tstate \<Rightarrow> tstate" where
  "add_group_slot capture st =
     (case get_single_stack st of
        (single, st1) \<Rightarrow>
          st1\<lparr>group_slots := group_slots st1 @ [(slot st1, span_top st1, single, capture)],
               slot := slot st1 + 1\<rparr>)"

definition handle_group :: "string \<Rightarrow> tstate \<Rightarrow> tstate" where
  "handle_group text st = add_group_slot (- 1) (flush_literal [text] st)"

text \<open>
  \<open>handle_format_group\<close>. \<open>text.index("[")\<close> raises \<open>ValueError\<close> when there is no bracket,
  which leaves the capture at -1; otherwise the subscript is read with \<open>int\<close> in the base
  its prefix names.
\<close>

definition capture_base :: "string \<Rightarrow> nat" where
  "capture_base capture =
     (let prefix = (if take 1 capture = ''-'' then take 2 (drop 1 capture) else take 2 capture)
      in if take 1 prefix = ''0'' then
           (if drop (length prefix - 1) prefix = ''b'' then 2
            else if drop (length prefix - 1) prefix = ''o'' then 8
            else if drop (length prefix - 1) prefix = ''x'' then 16
            else 10)
         else 10)"

definition handle_format_group :: "string \<Rightarrow> tstate \<Rightarrow> error + tstate" where
  "handle_format_group text0 st =
     (let index = length (takeWhile (\<lambda>c. c \<noteq> CHR ''['') text0);
          found = (index < length text0);
          capture_text = take (length text0 - 1 - (index + 1)) (drop (index + 1) text0);
          text = (if found then take index text0 else text0);
          capture = (if found then py_int capture_text (capture_base capture_text) else Some (- 1))
      in case capture of
           None \<Rightarrow> Inl (ValueError ''Capture index must be an integer!'')
         | Some cap \<Rightarrow>
             if text = [] \<and> \<not> auto st \<and> manual st
               then Inl (ValueError ''Cannot switch to auto format during manual format!'')
             else if text \<noteq> [] \<and> (manual st \<or> auto st) \<and> \<not> manual st
               then Inl (ValueError ''Cannot switch to manual format during auto format!'')
             else
               (let text1 = (if text = [] then show_nat 10 (auto_index st) else text);
                    st1 = (if text = [] then st\<lparr>auto := True, auto_index := auto_index st + 1\<rparr>
                           else if \<not> manual st \<and> \<not> auto st then st\<lparr>manual := True\<rparr>
                           else st)
                in Inr (add_group_slot cap (flush_literal [bs ''g<'', text1, ''>''] st1))))"

text \<open>
  The tokens longer than one character are told apart by the same chain of tests in
  \<open>parse_template\<close>, \<open>span_case\<close> and \<open>single_case\<close>; \<open>token_kind\<close> is that chain (in the
  order of \<open>single_case\<close>, which has every branch). \<open>parse_template\<close> has no branch of its
  own for the last three escapes and appends them as they are.
\<close>

datatype token_kind =
    KFormat | KOctal | KGroup | KSingle letter_case | KSpan letter_case | KEnd
  | KName | KUnicode | KHex | KOther

definition narrow :: bool where
  "narrow = False"

definition token_kind :: "config \<Rightarrow> string \<Rightarrow> token_kind" where
  "token_kind cfg t =
     (let c = drop 1 t; first = take 1 c
      in if use_format cfg \<and> take 1 t = ''{'' then KFormat
         else if first \<noteq> [] \<and> hd first \<in> set digits \<and> (use_format cfg \<or> length c = 3) then KOctal
         else if \<not> use_format cfg \<and> ((first \<noteq> [] \<and> hd first \<in> set digits) \<or> first = ''g'') then KGroup
         else if c = ''c'' then KSingle UPPER
         else if c = ''l'' then KSingle LOWER
         else if c = ''C'' then KSpan UPPER
         else if c = ''L'' then KSpan LOWER
         else if c = ''E'' then KEnd
         else if \<not> is_binary cfg \<and> first = ''N'' then KName
         else if \<not> is_binary cfg \<and> (first = ''u'' \<or> (\<not> narrow \<and> first = ''U'')) then KUnicode
         else if first = ''x'' then KHex
         else KOther)"

definition append_result :: "string \<Rightarrow> tstate \<Rightarrow> tstate" where
  "append_result x st = st\<lparr>result := result st @ [x]\<rparr>"

definition octal_text :: "nat \<Rightarrow> string" where
  "octal_text v = (if v \<le> 255 then bs (pad 3 (show_nat 8 v)) else bs (''u'' @ pad 4 (show_nat 16 v)))"

definition unicode_text :: "nat \<Rightarrow> string" where
  "unicode_text v = (if v \<le> 65535 then bs (''u'' @ pad 4 (show_nat 16 v)) else bs (''U'' @ pad 8 (show_nat 16 v)))"

definition field_text :: "string \<Rightarrow> string" where
  "field_text t = py_strip (take (length t - 2) (drop 1 t))"

text \<open>
  The branches of \<open>parse_template\<close> for a token that starts no case directive.
\<close>

definition parse_token :: "config \<Rightarrow> string \<Rightarrow> tstate \<Rightarrow> error + tstate" where
  "parse_token cfg t st =
     (if length t > 1 then
        (case token_kind cfg t of
           KFormat \<Rightarrow> handle_format_group (field_text t) st
         | KOctal \<Rightarrow>
             (let v = digits_val 8 (drop 1 t)
              in if v > 255 \<and> is_binary cfg
                 then Inl (ValueError ''octal escape value outside of range 0-0o377!'')
                 else Inr (append_result (octal_text v) st))
         | KGroup \<Rightarrow> Inr (handle_group t st)
         | KEnd \<Rightarrow> Inr st
         | other \<Rightarrow> Inr (append_result t st))
      else Inr (append_result t st))"

text \<open>
  The branches of \<open>single_case\<close> for a token that starts no case directive. The case is
  the one \<open>get_single_stack\<close> returns.
\<close>

definition single_token :: "config \<Rightarrow> string \<Rightarrow> tstate \<Rightarrow> error + tstate" where
  "single_token cfg t st =
     (if length t > 1 then
        (case token_kind cfg t of
           KFormat \<Rightarrow> handle_format_group (field_text t) st
         | KOctal \<Rightarrow>
             (let v = digits_val 8 (drop 1 t)
              in if is_binary cfg \<and> v > 255
                 then Inl (ValueError ''octal escape value outside of range 0-0o377!'')
                 else (case get_single_stack st of
                         (single, st1) \<Rightarrow> Inr (append_result (octal_text (case_ord single v)) st1)))
         | KGroup \<Rightarrow> Inr (handle_group t st)
         | KEnd \<Rightarrow> Inr (st\<lparr>end_found := True\<rparr>)
         | KName \<Rightarrow>
             (case unicode_lookup cfg (take (length t - 4) (drop 3 t)) of
                None \<Rightarrow> Inl (KeyError (take (length t - 4) (drop 3 t)))
              | Some uc \<Rightarrow>
                  (case get_single_stack st of
                     (single, st1) \<Rightarrow> Inr (append_result (unicode_text (case_ord single uc)) st1)))
         | KUnicode \<Rightarrow>
             (case get_single_stack st of
                (single, st1) \<Rightarrow>
                  Inr (append_result (unicode_text (case_ord single (digits_val 16 (drop 2 t)))) st1))
         | KHex \<Rightarrow>
             (case get_single_stack st of
                (single, st1) \<Rightarrow>
                  Inr (append_result (bs (''x'' @ pad 2 (show_nat 16 (case_ord single (digits_val 16 (drop 2 t)))))) st1))
         | other \<Rightarrow> (case get_single_stack st of (single, st1) \<Rightarrow> Inr (append_result t st1)))
      else (case get_single_stack st of
              (single, st1) \<Rightarrow> Inr (append_result (convert_case cfg t single) st1)))"

text \<open>
  The branches of \<open>span_case\<close> for a token that starts no case directive. In binary mode
  the octal branch calls the converted string as if it were a function when a single
  case is pending, which raises \<open>TypeError\<close>.
\<close>

definition span_value :: "letter_case \<Rightarrow> letter_case option \<Rightarrow> nat \<Rightarrow> nat" where
  "span_value cs single v =
     (case single of None \<Rightarrow> case_ord (Some cs) v | Some sg \<Rightarrow> case_ord single (case_ord (Some cs) v))"

definition span_token :: "config \<Rightarrow> letter_case \<Rightarrow> string \<Rightarrow> tstate \<Rightarrow> error + tstate" where
  "span_token cfg cs t st =
     (if length t > 1 then
        (case token_kind cfg t of
           KFormat \<Rightarrow> handle_format_group (field_text t) st
         | KOctal \<Rightarrow>
             (let v = digits_val 8 (drop 1 t)
              in if is_binary cfg \<and> v > 255
                 then Inl (ValueError ''octal escape value outside of range 0-0o377!'')
                 else (case get_single_stack st of
                         (single, st1) \<Rightarrow>
                           if is_binary cfg \<and> single \<noteq> None
                           then Inl (TypeError ''str object is not callable'')
                           else if is_binary cfg
                           then Inr (append_result (bs (pad 3 (show_nat 8 (span_value cs single v)))) st1)
                           else Inr (append_result (octal_text (span_value cs single v)) st1)))
         | KGroup \<Rightarrow> Inr (handle_group t st)
         | KName \<Rightarrow>
             (case unicode_lookup cfg (take (length t - 4) (drop 3 t)) of
                None \<Rightarrow> Inl (KeyError (take (length t - 4) (drop 3 t)))
              | Some uc \<Rightarrow>
                  (case get_single_stack st of
                     (single, st1) \<Rightarrow> Inr (append_result (unicode_text (span_value cs single uc)) st1)))
         | KUnicode \<Rightarrow>
             (case get_single_stack st of
                (single, st1) \<Rightarrow>
                  Inr (append_result (unicode_text (span_value cs single (digits_val 16 (drop 2 t)))) st1))
         | KHex \<Rightarrow>
             (case get_single_stack st of
                (single, st1) \<Rightarrow>
                  Inr (append_result (bs (''x'' @ pad 2 (show_nat 16 (span_value cs single (digits_val 16 (drop 2 t)))))) st1))
         | other \<Rightarrow> (case get_single_stack st of (single, st1) \<Rightarrow> Inr (append_result t st1)))
      else if single_stack st \<noteq> [] then
        (case get_single_stack st of
           (single, st1) \<Rightarrow>
             (let text = convert_case cfg t (Some cs)
              in if single \<noteq> None
                 then Inr (append_result (convert_case cfg (take 1 text) single @ drop 1 text) st1)
                 else Inr st1))
      else Inr (append_result (convert_case cfg t (Some cs)) st))"

definition lift :: "error + tstate \<Rightarrow> tres" where
  "lift r = (case r of Inl e \<Rightarrow> TErr e | Inr st \<Rightarrow> TOk st)"

datatype directive = NoDirective | Single letter_case | Span letter_case

definition directive :: "config \<Rightarrow> string \<Rightarrow> directive" where
  "directive cfg t =
     (if length t > 1 then
        (case token_kind cfg t of
           KSingle cs \<Rightarrow> Single cs
         | KSpan cs \<Rightarrow> Span cs
         | other \<Rightarrow> NoDirective)
      else NoDirective)"

text \<open>
  \<open>single_case\<close>, \<open>span_case\<close> and the loop of \<open>parse_template\<close> read tokens from the same
  cursor and call each other, so they take a budget that every call lowers by one
  (\<open>TFuel\<close> when it is used up). \<open>span_loop\<close> is the loop \<open>while t != "\\E"\<close> of \<open>span_case\<close>.
  \<open>directive\<close> tells whether a token is one of the four case directives, and which.
\<close>

function (sequential) single_case :: "nat \<Rightarrow> config \<Rightarrow> string \<Rightarrow> letter_case \<Rightarrow> tstate \<Rightarrow> tres"
  and span_case :: "nat \<Rightarrow> config \<Rightarrow> string \<Rightarrow> letter_case \<Rightarrow> tstate \<Rightarrow> tres"
  and span_loop :: "nat \<Rightarrow> config \<Rightarrow> string \<Rightarrow> letter_case \<Rightarrow> string \<Rightarrow> tstate \<Rightarrow> tres"
  and parse_loop :: "nat \<Rightarrow> config \<Rightarrow> string \<Rightarrow> tstate \<Rightarrow> tres" where
  "single_case 0 cfg s cs st = TFuel"
| "single_case (Suc n) cfg s cs st =
     (case iternext (use_format cfg) (is_binary cfg) s (rindex st) of
        Inl e \<Rightarrow> TErr e
      | Inr None \<Rightarrow> TOk (st\<lparr>single_stack := single_stack st @ [cs]\<rparr>)
      | Inr (Some (t, j)) \<Rightarrow>
          (case directive cfg t of
             Single cs1 \<Rightarrow>
               single_case n cfg s cs1 (st\<lparr>single_stack := single_stack st @ [cs], rindex := j\<rparr>)
           | Span cs1 \<Rightarrow>
               span_case n cfg s cs1 (st\<lparr>single_stack := single_stack st @ [cs], rindex := j\<rparr>)
           | NoDirective \<Rightarrow> lift (single_token cfg t (st\<lparr>single_stack := single_stack st @ [cs], rindex := j\<rparr>))))"
| "span_case 0 cfg s cs st = TFuel"
| "span_case (Suc n) cfg s cs st =
     (case iternext (use_format cfg) (is_binary cfg) s (rindex st) of
        Inl e \<Rightarrow> TErr e
      | Inr None \<Rightarrow> TOk st
      | Inr (Some (t, j)) \<Rightarrow>
          (case span_loop n cfg s cs t (st\<lparr>span_stack := span_stack st @ [cs], rindex := j\<rparr>) of
             TOk st1 \<Rightarrow> TOk (st1\<lparr>span_stack := butlast (span_stack st1)\<rparr>)
           | other \<Rightarrow> other))"
| "span_loop 0 cfg s cs t st = TFuel"
| "span_loop (Suc n) cfg s cs t st =
     (if t = bs ''E'' then TOk st
      else
        (case (case directive cfg t of
                 Single cs1 \<Rightarrow> single_case n cfg s cs1 st
               | Span cs1 \<Rightarrow> span_case n cfg s cs1 st
               | NoDirective \<Rightarrow> lift (span_token cfg cs t st)) of
           TOk st1 \<Rightarrow>
             (if end_found st1 then TOk (st1\<lparr>end_found := False\<rparr>)
              else
                (case iternext (use_format cfg) (is_binary cfg) s (rindex st1) of
                   Inl e \<Rightarrow> TErr e
                 | Inr None \<Rightarrow> TOk st1
                 | Inr (Some (t1, j)) \<Rightarrow> span_loop n cfg s cs t1 (st1\<lparr>rindex := j\<rparr>)))
         | other \<Rightarrow> other))"
| "parse_loop 0 cfg s st = TFuel"
| "parse_loop (Suc n) cfg s st =
     (case iternext (use_format cfg) (is_binary cfg) s (rindex st) of
        Inl e \<Rightarrow> TErr e
      | Inr None \<Rightarrow> TOk st
      | Inr (Some (t, j)) \<Rightarrow>
          (case (case directive cfg t of
                   Single cs1 \<Rightarrow> single_case n cfg s cs1 (st\<lparr>rindex := j\<rparr>)
                 | Span cs1 \<Rightarrow> span_case n cfg s cs1 (st\<lparr>rindex := j\<rparr>)
                 | NoDirective \<Rightarrow> lift (parse_token cfg t (st\<lparr>rindex := j\<rparr>))) of
             TOk st1 \<Rightarrow> parse_loop n cfg s st1
           | other \<Rightarrow> other))"
  by pat_completeness auto
termination
  by (relation "measure (\<lambda>x. case x of
        Inl (Inl (n, r)) \<Rightarrow> n | Inl (Inr (n, r)) \<Rightarrow> n
      | Inr (Inl (n, r)) \<Rightarrow> n | Inr (Inr (n, r)) \<Rightarrow> n)") auto

text \<open>
  A part of what the host engine's template grammar returns
  (\<open>regex._compile_replacement_helper\<close>): the number of a group or a literal string.
\<close>

datatype part = PGroup nat | PLit string

text \<open>
  The host engine, as far as the replace side uses it: the template grammar for the
  pattern the template is compiled for (it may raise), \<open>unicodedata.lookup\<close>, and the hash
  of the pattern. None of them is part of the repository.
\<close>

record host =
  compile_replacement :: "string \<Rightarrow> error + part list"
  lookup_name :: "string \<Rightarrow> nat option"
  pattern_hash :: nat

text \<open>\<open>regex_parse_template\<close>: the groups with their positions, and the literals.\<close>

fun parts_groups :: "nat \<Rightarrow> part list \<Rightarrow> (nat \<times> nat) list" where
  "parts_groups count [] = []"
| "parts_groups count (PGroup g # ps) = (count, g) # parts_groups (count + 1) ps"
| "parts_groups count (PLit l # ps) = parts_groups (count + 1) ps"

fun parts_literals :: "part list \<Rightarrow> string option list" where
  "parts_literals [] = []"
| "parts_literals (PGroup g # ps) = None # parts_literals ps"
| "parts_literals (PLit l # ps) = Some l # parts_literals ps"

text \<open>A compiled \<open>ReplaceTemplate\<close>: what the expander and the public functions read.\<close>

record template =
  t_use_format :: bool
  t_pattern_hash :: nat
  t_original :: string
  t_group_slots :: "(nat \<times> letter_case option \<times> letter_case option \<times> int) list"
  t_groups :: "(nat \<times> nat) list"
  t_literals :: "string option list"

definition initial_tstate :: tstate where
  "initial_tstate =
     \<lparr>rindex = 0, result = [[]], literal_slots = [], group_slots = [], span_stack = [],
      single_stack = [], slot = 0, manual = False, auto = False, auto_index = 0,
      end_found = False\<rparr>"

text \<open>
  \<open>ReplaceTemplate.__init__\<close> with \<open>parse_template\<close>. The result is \<open>None\<close> when the budget
  does not suffice.
\<close>

definition replace_template ::
  "nat \<Rightarrow> host \<Rightarrow> bool \<Rightarrow> string \<Rightarrow> bool \<Rightarrow> (error + template) option" where
  "replace_template fuel h bin tmpl fmt =
     (case parse_loop fuel \<lparr>use_format = fmt, is_binary = bin, unicode_lookup = lookup_name h\<rparr>
             tmpl initial_tstate of
        TFuel \<Rightarrow> None
      | TErr e \<Rightarrow> Some (Inl e)
      | TOk st \<Rightarrow>
          (let slots = (if length (result st) > 1 then literal_slots st @ [concat (result st)]
                        else literal_slots st)
           in case compile_replacement h (concat slots) of
                Inl e \<Rightarrow> Some (Inl e)
              | Inr ps \<Rightarrow>
                  Some (Inr \<lparr>t_use_format = fmt, t_pattern_hash = pattern_hash h, t_original = tmpl,
                              t_group_slots = group_slots st, t_groups = parts_groups 0 ps,
                              t_literals = parts_literals ps\<rparr>)))"

section \<open>The template expander: \<open>ReplaceTemplateExpander\<close>\<close>

text \<open>
  A match object of the host engine: \<open>captures g\<close> is the list of the strings group \<open>g\<close>
  captured, and \<open>match_host\<close> the engine for the pattern that produced the match
  (\<open>m.re\<close>).
\<close>

record rmatch =
  captures :: "nat \<Rightarrow> string list"
  match_host :: host

fun get_group_index :: "(nat \<times> nat) list \<Rightarrow> nat \<Rightarrow> nat option" where
  "get_group_index [] i = None"
| "get_group_index ((k, g) # gs) i = (if k = i then Some g else get_group_index gs i)"

fun get_group_attributes ::
  "(nat \<times> letter_case option \<times> letter_case option \<times> int) list \<Rightarrow> nat \<Rightarrow>
   letter_case option \<times> letter_case option \<times> int" where
  "get_group_attributes [] i = (None, None, - 1)"
| "get_group_attributes ((k, a) # gs) i = (if k = i then a else get_group_attributes gs i)"

definition range_error :: "int \<Rightarrow> error" where
  "range_error capture = IndexError ([CHR 0x27] @ show_int capture @ [CHR 0x27] @ '' is out of range!'')"

text \<open>The body of the loop of \<open>expand\<close> for the literal at position \<open>x\<close>.\<close>

definition expand_slot :: "rmatch \<Rightarrow> template \<Rightarrow> nat \<Rightarrow> string option \<Rightarrow> error + string" where
  "expand_slot m tp x l =
     (case l of
        Some text \<Rightarrow> Inr text
      | None \<Rightarrow>
          (case get_group_index (t_groups tp) x of
             None \<Rightarrow> Inl HostError
           | Some g \<Rightarrow>
               (case get_group_attributes (t_group_slots tp) x of
                  (span_cs, single_cs, capture) \<Rightarrow>
                    (case py_index (captures m g) capture of
                       None \<Rightarrow> Inl (range_error capture)
                     | Some l0 \<Rightarrow>
                         (let l1 = (case span_cs of
                                      None \<Rightarrow> l0
                                    | Some cs \<Rightarrow> if cs = LOWER then py_lower l0 else py_upper l0);
                              l2 = (case single_cs of
                                      None \<Rightarrow> l1
                                    | Some cs \<Rightarrow>
                                        if cs = LOWER then py_lower (take 1 l1) @ drop 1 l1
                                        else py_upper (take 1 l1) @ drop 1 l1)
                          in Inr l2)))))"

fun expand_loop :: "rmatch \<Rightarrow> template \<Rightarrow> nat \<Rightarrow> string option list \<Rightarrow> string \<Rightarrow> error + string" where
  "expand_loop m tp x [] text = Inr text"
| "expand_loop m tp x (l # ls) text =
     (case expand_slot m tp x l of
        Inl e \<Rightarrow> Inl e
      | Inr piece \<Rightarrow> expand_loop m tp (x + 1) ls (text @ piece))"

definition expand_template :: "rmatch \<Rightarrow> template \<Rightarrow> error + string" where
  "expand_template m tp = expand_loop m tp 0 (t_literals tp) []"

section \<open>The public functions\<close>

text \<open>
  A \<open>Replace\<close> object wraps the template it was made from (the partial application of
  \<open>_apply_replace_backrefs\<close>), with the template's \<open>use_format\<close> and \<open>pattern_hash\<close>. An
  argument of a public function is a string, a \<open>Replace\<close>, a \<open>ReplaceTemplate\<close>, or a value
  of another type; a pattern argument is a compiled pattern (given by its host) or a
  value of another type.
\<close>

record replace =
  r_template :: template
  r_use_format :: bool
  r_pattern_hash :: nat

datatype repl = RString bool string | RReplace replace | RTemplate template | ROther

datatype pattern_arg = Compiled host | NotCompiled

definition FORMAT :: nat where
  "FORMAT = 1"

definition make_replace :: "template \<Rightarrow> replace" where
  "make_replace tp = \<lparr>r_template = tp, r_use_format = t_use_format tp, r_pattern_hash = t_pattern_hash tp\<rparr>"

text \<open>
  \<open>_apply_replace_backrefs\<close>. The last branch is the function's implicit \<open>return None\<close>
  for an argument of another type, which the callers have excluded. \<open>flags & FORMAT\<close> is
  the lowest bit of \<open>flags\<close>.
\<close>

datatype 'a answer = Value 'a | NoneValue

definition apply_replace_backrefs ::
  "nat \<Rightarrow> rmatch option \<Rightarrow> repl \<Rightarrow> nat \<Rightarrow> (error + string answer) option" where
  "apply_replace_backrefs fuel m r flag_bits =
     (case m of
        None \<Rightarrow> Some (Inl (ValueError ''Match is None!''))
      | Some mt \<Rightarrow>
          (case r of
             RReplace rp \<Rightarrow> Some (map_sum id Value (expand_template mt (r_template rp)))
           | RTemplate tp \<Rightarrow> Some (map_sum id Value (expand_template mt tp))
           | RString bin text \<Rightarrow>
               (case replace_template fuel (match_host mt) bin text (odd flag_bits) of
                  None \<Rightarrow> None
                | Some (Inl e) \<Rightarrow> Some (Inl e)
                | Some (Inr tp) \<Rightarrow> Some (map_sum id Value (expand_template mt tp)))
           | ROther \<Rightarrow> Some (Inr NoneValue)))"

text \<open>\<open>compile_replace\<close>.\<close>

definition compile_replace :: "nat \<Rightarrow> pattern_arg \<Rightarrow> repl \<Rightarrow> nat \<Rightarrow> (error + replace) option" where
  "compile_replace fuel pattern r flag_bits =
     (case pattern of
        NotCompiled \<Rightarrow> Some (Inl (TypeError ''Pattern must be a compiled regular expression!''))
      | Compiled h \<Rightarrow>
          (case r of
             RString bin text \<Rightarrow>
               (case replace_template fuel h bin text (odd flag_bits) of
                  None \<Rightarrow> None
                | Some (Inl e) \<Rightarrow> Some (Inl e)
                | Some (Inr tp) \<Rightarrow> Some (Inr (make_replace tp)))
           | RReplace rp \<Rightarrow>
               if flag_bits \<noteq> 0
                 then Some (Inl (ValueError ''Cannot process flags argument with a compiled pattern!''))
               else if r_pattern_hash rp \<noteq> pattern_hash h
                 then Some (Inl (ValueError (''Pattern hash doesn'' @ [CHR 0x27] @ ''t match hash in compiled replace!'')))
               else Some (Inr rp)
           | RTemplate tp \<Rightarrow>
               if flag_bits \<noteq> 0
                 then Some (Inl (ValueError ''Cannot process flags argument with a ReplaceTemplate!''))
               else Some (Inr (make_replace tp))
           | ROther \<Rightarrow> Some (Inl (TypeError ''Not a valid type!''))))"

text \<open>\<open>expand\<close> and \<open>expandf\<close>.\<close>

definition repl_format :: "repl \<Rightarrow> bool option" where
  "repl_format r =
     (case r of
        RReplace rp \<Rightarrow> Some (r_use_format rp)
      | RTemplate tp \<Rightarrow> Some (t_use_format tp)
      | other \<Rightarrow> None)"

definition is_string :: "repl \<Rightarrow> bool" where
  "is_string r = (case r of RString bin text \<Rightarrow> True | other \<Rightarrow> False)"

definition expand :: "nat \<Rightarrow> rmatch option \<Rightarrow> repl \<Rightarrow> (error + string answer) option" where
  "expand fuel m r =
     (case repl_format r of
        Some fmt \<Rightarrow>
          if fmt then Some (Inl (ValueError ''Replace should not be compiled as a format replace!''))
          else apply_replace_backrefs fuel m r 0
      | None \<Rightarrow>
          if \<not> is_string r then Some (Inl (TypeError ''Expected string, buffer, or compiled replace!''))
          else apply_replace_backrefs fuel m r 0)"

definition expandf :: "nat \<Rightarrow> rmatch option \<Rightarrow> repl \<Rightarrow> (error + string answer) option" where
  "expandf fuel m r =
     (case repl_format r of
        Some fmt \<Rightarrow>
          if \<not> fmt then Some (Inl (ValueError ''Replace not compiled as a format replace''))
          else apply_replace_backrefs fuel m r FORMAT
      | None \<Rightarrow>
          if \<not> is_string r then Some (Inl (TypeError ''Expected string, buffer, or compiled replace!''))
          else apply_replace_backrefs fuel m r FORMAT)"

section \<open>Instances for running the model\<close>

text \<open>
  Modelled from the spec: the host engine is an external collaborator (spec section 6,
  the template-literal grammar). \<open>sample_host\<close> is an instance for running the model on
  concrete templates: its grammar resolves the references to group 1 and returns any
  other template as one literal; it knows no character names. \<open>sample_match\<close> is a match
  of its pattern in which group 1 captured the given strings.
\<close>

definition sample_host :: host where
  "sample_host =
     \<lparr>compile_replacement =
        (\<lambda>t. if t = bs ''1'' \<or> t = bs ''g<1>'' then Inr [PGroup 1] else Inr [PLit t]),
      lookup_name = (\<lambda>name. None), pattern_hash = 1\<rparr>"

definition sample_match :: "string list \<Rightarrow> rmatch" where
  "sample_match cs = \<lparr>captures = (\<lambda>g. if g = 1 then cs else []), match_host = sample_host\<rparr>"


section \<open>Properties of the quoting pass\<close>

lemma tail_bs_snoc: "tail_bs (s @ [c]) = (if c = bslash then Suc (tail_bs s) else 0)"
  by (simp add: tail_bs_def)

lemma tail_bs_Nil: "tail_bs [] = 0"
  by (simp add: tail_bs_def)

lemma has_pair_snoc:
  "has_pair a b (p @ [x]) = (has_pair a b p \<or> (p \<noteq> [] \<and> last p = a \<and> x = b))"
  by (induction a b p rule: has_pair.induct) auto

lemma tail_bs_pos: "0 < tail_bs p \<Longrightarrow> p \<noteq> [] \<and> last p = bslash"
  by (cases p rule: rev_cases) (auto simp: tail_bs_snoc tail_bs_Nil split: if_splits)

lemma odd_tail_bs: "odd (tail_bs p) \<Longrightarrow> p \<noteq> [] \<and> butlast p @ [bslash] = p"
proof -
  assume "odd (tail_bs p)"
  then have "0 < tail_bs p" by (cases "tail_bs p") auto
  then have "p \<noteq> []" "last p = bslash" using tail_bs_pos by auto
  then show ?thesis by (metis append_butlast_last_id)
qed

text \<open>
  Inside an open quote, a stretch \<open>p\<close> of the input in which no backslash is directly
  followed by \<open>E\<close> is collected in \<open>quoted\<close> as it stands; a backslash still pending at its
  end is the flag \<open>escaped\<close>.
\<close>

lemma quoted_scan:
  "\<not> has_pair bslash (CHR ''E'') p \<Longrightarrow>
   quotes_loop esc False True c q (p @ ts) =
   quotes_loop esc (odd (tail_bs p)) True c (q @ (if odd (tail_bs p) then butlast p else p)) ts"
proof (induction p arbitrary: ts rule: rev_induct)
  case Nil
  then show ?case by (simp add: tail_bs_Nil)
next
  case (snoc x p)
  from snoc.prems have np: "\<not> has_pair bslash (CHR ''E'') p"
    and nl: "\<not> (p \<noteq> [] \<and> last p = bslash \<and> x = CHR ''E'')"
    by (simp_all add: has_pair_snoc)
  have step: "quotes_loop esc False True c q ((p @ [x]) @ ts) =
    quotes_loop esc (odd (tail_bs p)) True c (q @ (if odd (tail_bs p) then butlast p else p)) (x # ts)"
    using snoc.IH [OF np, of "x # ts"] by simp
  show ?case
  proof (cases "odd (tail_bs p)")
    case True
    then have pl: "p \<noteq> []" "butlast p @ [bslash] = p" using odd_tail_bs by auto
    then have "last p = bslash" by (metis snoc_eq_iff_butlast)
    with pl nl have xE: "x \<noteq> CHR ''E''" by simp
    from pl have bp: "butlast p @ bslash # ys = p @ ys" for ys
      by (metis append_Cons append_Nil append_assoc)
    show ?thesis using True xE step by (simp add: tail_bs_snoc bp)
  next
    case False
    then show ?thesis using step by (simp add: tail_bs_snoc)
  qed
qed

lemma quoted_scan_even:
  "\<not> has_pair bslash (CHR ''E'') p \<Longrightarrow> even (tail_bs p) \<Longrightarrow>
   quotes_loop esc False True c q (p @ ts) = quotes_loop esc False True c (q @ p) ts"
  using quoted_scan [of p esc c q ts] by simp

lemma quotes_open: "quotes_loop esc False False c q (bs ''Q'' @ ts) = quotes_loop esc False True c q ts"
  by (simp add: bs_def)

text \<open>What is already in \<open>current\<close> stays in front of the result.\<close>

lemma quotes_loop_current:
  "quotes_loop esc e iq (c0 @ c) q ts = c0 @ quotes_loop esc e iq c q ts"
  by (induction ts arbitrary: e iq c q) (auto simp: Let_def)




text \<open>
  C5 (as amended). A \<open>\Q\<close> met while a quoting span is open does not start a nested span: the
  first live \<open>\E\<close> after it closes the span, and what follows is scanned unquoted. It
  contributes both of its characters, the backslash and the \<open>Q\<close>, to the quoted text that
  is escaped. (\<open>a\<close> and \<open>b\<close> are stretches without \<open>\E\<close> that do not end in an odd number of
  backslashes, so that the \<open>\Q\<close> after \<open>a\<close> and the \<open>\E\<close> after \<open>b\<close> are live.)
\<close>

theorem nested_quote:
  assumes "\<not> has_pair bslash (CHR ''E'') a" and "even (tail_bs a)"
    and "\<not> has_pair bslash (CHR ''E'') b" and "even (tail_bs b)"
  shows "process_quotes esc (bs ''Q'' @ a @ bs ''Q'' @ b @ bs ''E'' @ ts) =
         esc (a @ bs ''Q'' @ b) @ process_quotes esc ts"
proof -
  have "process_quotes esc (bs ''Q'' @ a @ bs ''Q'' @ b @ bs ''E'' @ ts) =
        quotes_loop esc False True [] [] (a @ bs ''Q'' @ b @ bs ''E'' @ ts)"
    by (simp add: process_quotes_def quotes_open)
  also have "\<dots> = quotes_loop esc False True [] a (bs ''Q'' @ b @ bs ''E'' @ ts)"
    using quoted_scan_even [OF assms(1,2), of esc "[]" "[]"] by simp
  also have "\<dots> = quotes_loop esc False True [] (a @ bs ''Q'') (b @ bs ''E'' @ ts)"
    by (simp add: bs_def)
  also have "\<dots> = quotes_loop esc False True [] (a @ bs ''Q'' @ b) (bs ''E'' @ ts)"
    using quoted_scan_even [OF assms(3,4), of esc "[]" "a @ bs ''Q''"] by simp
  also have "\<dots> = quotes_loop esc False False (esc (a @ bs ''Q'' @ b) @ []) [] ts"
    by (simp add: bs_def)
  also have "\<dots> = esc (a @ bs ''Q'' @ b) @ quotes_loop esc False False [] [] ts"
    by (rule quotes_loop_current)
  finally show ?thesis by (simp add: process_quotes_def)
qed

text \<open>The theorem at \<open>\Qa\Qb\Ec\<close>: the \<open>c\<close> after the first \<open>\E\<close> is outside the span.\<close>

theorem nested_quote_witness:
  "\<not> has_pair bslash (CHR ''E'') ''a'' \<and> even (tail_bs ''a'') \<and>
   \<not> has_pair bslash (CHR ''E'') ''b'' \<and> even (tail_bs ''b'') \<and>
   process_quotes host_escape (bs ''Q'' @ ''a'' @ bs ''Q'' @ ''b'' @ bs ''E'' @ ''c'') =
     host_escape (''a'' @ bs ''Q'' @ ''b'') @ process_quotes host_escape ''c'' \<and>
   host_escape (''a'' @ bs ''Q'' @ ''b'') @ process_quotes host_escape ''c'' =
     ''a'' @ [bslash, bslash] @ ''Qbc''"
proof -
  have h: "\<not> has_pair bslash (CHR ''E'') ''a''" "even (tail_bs ''a'')"
    "\<not> has_pair bslash (CHR ''E'') ''b''" "even (tail_bs ''b'')"
    by (simp_all add: tail_bs_def)
  have v: "host_escape (''a'' @ bs ''Q'' @ ''b'') @ process_quotes host_escape ''c'' =
     ''a'' @ [bslash, bslash] @ ''Qbc''"
    by (simp add: process_quotes_def bs_def is_alnum_def)
  show ?thesis
    using nested_quote [OF h, of host_escape "''c''"] h v by simp
qed

text \<open>
  C5 as the spec states it fails at \<open>\Qa\Qb\E\<close>: the quoted text is \<open>a\Qb\<close>, with the
  backslash, and its escape differs from the escape of \<open>aQb\<close>.
\<close>

theorem nested_quote_counterexample:
  "process_quotes host_escape (bs ''Q'' @ ''a'' @ bs ''Q'' @ ''b'' @ bs ''E'') =
     ''a'' @ [bslash, bslash] @ ''Qb'' \<and>
   host_escape ''aQb'' = ''aQb'' \<and>
   process_quotes host_escape (bs ''Q'' @ ''a'' @ bs ''Q'' @ ''b'' @ bs ''E'') \<noteq> host_escape ''aQb''"
  by (simp add: process_quotes_def bs_def is_alnum_def)

section \<open>Properties of the main pass\<close>

subsection \<open>What a scan does to \<open>verbose\<close> and \<open>version\<close>\<close>






















subsection \<open>A retry loop that does not end\<close>

lemma mg_flag:
  "main_group n binary ''(?-x)'' \<lparr>index = 0, verbose = v, version = V1\<rparr> [] = OutOfFuel \<or>
   main_group n binary ''(?-x)'' \<lparr>index = 0, verbose = v, version = V1\<rparr> [] =
     Retry \<lparr>index = 5, verbose = \<not> v, version = V1\<rparr>"
proof (cases n)
  case 0
  then show ?thesis by simp
next
  case (Suc m)
  show ?thesis
  proof (cases m)
    case 0
    with Suc show ?thesis by (simp add: next_tok_def)
  next
    case (Suc k)
    note Sm = this
    show ?thesis
    proof (cases k)
      case 0
      with Sm \<open>n = Suc m\<close> show ?thesis by (simp add: next_tok_def)
    next
      case (Suc l)
      with Sm \<open>n = Suc m\<close> show ?thesis
        by (cases v) (simp_all add: next_tok_def subgroup_flags_def get_flags_def flags_def flag_text_def Let_def)
    qed
  qed
qed

lemma loop_flag:
  "apply_loop n binary ''(?-x)'' \<lparr>index = 0, verbose = v, version = V1\<rparr> = OutOfFuel"
proof (induction n arbitrary: v)
  case 0
  then show ?case by simp
next
  case (Suc n)
  from mg_flag [of n binary v] show ?case
  proof
    assume "main_group n binary ''(?-x)'' \<lparr>index = 0, verbose = v, version = V1\<rparr> [] = OutOfFuel"
    then show ?thesis by simp
  next
    assume "main_group n binary ''(?-x)'' \<lparr>index = 0, verbose = v, version = V1\<rparr> [] =
     Retry \<lparr>index = 5, verbose = \<not> v, version = V1\<rparr>"
    then show ?thesis using Suc.IH [of "\<not> v"] by simp
  qed
qed

text \<open>
  C6 (a defect of the code). The pattern \<open>(?-x)\<close> contains none of the extended escapes.
  With version 1 selected, \<open>flags\<close> reads its text \<open>-x\<close> as "contains x" while verbose is
  off and turns verbose on, then as \<open>-x\<close> while verbose is on and turns it off; each change
  raises \<open>RetryException\<close> and \<open>apply\<close> scans again from the start. No budget suffices:
  the preprocessor does not return.
\<close>

theorem never_returns:
  "apply_search n esc binary v (Some V1) ''(?-x)'' = None"
  by (simp add: apply_search_def process_quotes_def loop_flag)

subsection \<open>Character classes\<close>










section \<open>Properties of the template compiler and expander\<close>

subsection \<open>More budget gives the same result\<close>

lemma lift_fuel: "lift x \<noteq> TFuel"
  by (simp add: lift_def split: sum.splits)

lemma parse_fuel_mono:
  "(\<forall>m cs st. n \<le> m \<longrightarrow> single_case n cfg s cs st \<noteq> TFuel \<longrightarrow>
       single_case m cfg s cs st = single_case n cfg s cs st) \<and>
   (\<forall>m cs st. n \<le> m \<longrightarrow> span_case n cfg s cs st \<noteq> TFuel \<longrightarrow>
       span_case m cfg s cs st = span_case n cfg s cs st) \<and>
   (\<forall>m cs t st. n \<le> m \<longrightarrow> span_loop n cfg s cs t st \<noteq> TFuel \<longrightarrow>
       span_loop m cfg s cs t st = span_loop n cfg s cs t st) \<and>
   (\<forall>m st. n \<le> m \<longrightarrow> parse_loop n cfg s st \<noteq> TFuel \<longrightarrow>
       parse_loop m cfg s st = parse_loop n cfg s st)"
proof (induction n)
  case 0
  show ?case by simp
next
  case (Suc n)
  then have sc: "\<And>m cs st. n \<le> m \<Longrightarrow> single_case n cfg s cs st \<noteq> TFuel \<Longrightarrow>
       single_case m cfg s cs st = single_case n cfg s cs st"
    and sp: "\<And>m cs st. n \<le> m \<Longrightarrow> span_case n cfg s cs st \<noteq> TFuel \<Longrightarrow>
       span_case m cfg s cs st = span_case n cfg s cs st"
    and sl: "\<And>m cs t st. n \<le> m \<Longrightarrow> span_loop n cfg s cs t st \<noteq> TFuel \<Longrightarrow>
       span_loop m cfg s cs t st = span_loop n cfg s cs t st"
    and pl: "\<And>m st. n \<le> m \<Longrightarrow> parse_loop n cfg s st \<noteq> TFuel \<Longrightarrow>
       parse_loop m cfg s st = parse_loop n cfg s st"
    by blast+
  have A: "single_case (Suc m) cfg s cs st = single_case (Suc n) cfg s cs st"
    if "n \<le> m" "single_case (Suc n) cfg s cs st \<noteq> TFuel" for m cs st
    using that sc [of m] sp [of m]
    by (auto simp: lift_fuel split: sum.splits option.splits prod.splits directive.splits)
  have B: "span_case (Suc m) cfg s cs st = span_case (Suc n) cfg s cs st"
    if "n \<le> m" "span_case (Suc n) cfg s cs st \<noteq> TFuel" for m cs st
    using that sl [of m]
    by (auto split: sum.splits option.splits prod.splits tres.splits)
  have C: "span_loop (Suc m) cfg s cs t st = span_loop (Suc n) cfg s cs t st"
    if "n \<le> m" "span_loop (Suc n) cfg s cs t st \<noteq> TFuel" for m cs t st
    using that sc [of m] sp [of m] sl [of m]
    by (auto simp: lift_fuel split: sum.splits option.splits prod.splits directive.splits tres.splits if_splits)
  have D: "parse_loop (Suc m) cfg s st = parse_loop (Suc n) cfg s st"
    if "n \<le> m" "parse_loop (Suc n) cfg s st \<noteq> TFuel" for m st
    using that sc [of m] sp [of m] pl [of m]
    by (auto simp: lift_fuel split: sum.splits option.splits prod.splits directive.splits tres.splits if_splits)
  have up: "\<exists>m'. m = Suc m' \<and> n \<le> m'" if "Suc n \<le> m" for m
    using that by (cases m) auto
  show ?case
  proof (intro conjI allI impI)
    fix m cs st
    assume "Suc n \<le> m" and f: "single_case (Suc n) cfg s cs st \<noteq> TFuel"
    then obtain m' where m: "m = Suc m'" and le: "n \<le> m'" using up by blast
    show "single_case m cfg s cs st = single_case (Suc n) cfg s cs st" unfolding m by (rule A [OF le f])
  next
    fix m cs st
    assume "Suc n \<le> m" and f: "span_case (Suc n) cfg s cs st \<noteq> TFuel"
    then obtain m' where m: "m = Suc m'" and le: "n \<le> m'" using up by blast
    show "span_case m cfg s cs st = span_case (Suc n) cfg s cs st" unfolding m by (rule B [OF le f])
  next
    fix m cs t st
    assume "Suc n \<le> m" and f: "span_loop (Suc n) cfg s cs t st \<noteq> TFuel"
    then obtain m' where m: "m = Suc m'" and le: "n \<le> m'" using up by blast
    show "span_loop m cfg s cs t st = span_loop (Suc n) cfg s cs t st" unfolding m by (rule C [OF le f])
  next
    fix m st
    assume "Suc n \<le> m" and f: "parse_loop (Suc n) cfg s st \<noteq> TFuel"
    then obtain m' where m: "m = Suc m'" and le: "n \<le> m'" using up by blast
    show "parse_loop m cfg s st = parse_loop (Suc n) cfg s st" unfolding m by (rule D [OF le f])
  qed
qed


lemma parse_loop_enough_err:
  "parse_loop n cfg s st = TErr e \<Longrightarrow> n \<le> m \<Longrightarrow> parse_loop m cfg s st = TErr e"
  using parse_fuel_mono [of n cfg s] by auto

lemma replace_template_enough:
  "replace_template n h bin tmpl fmt = Some x \<Longrightarrow> n \<le> m \<Longrightarrow>
   replace_template m h bin tmpl fmt = Some x"
proof -
  assume a: "replace_template n h bin tmpl fmt = Some x" and le: "n \<le> m"
  let ?cfg = "\<lparr>use_format = fmt, is_binary = bin, unicode_lookup = lookup_name h\<rparr>"
  from a have "parse_loop n ?cfg tmpl initial_tstate \<noteq> TFuel"
    by (auto simp: replace_template_def)
  then have "parse_loop m ?cfg tmpl initial_tstate = parse_loop n ?cfg tmpl initial_tstate"
    using parse_fuel_mono [of n ?cfg tmpl] le by blast
  with a show ?thesis by (simp add: replace_template_def)
qed

subsection \<open>Case directives on a group\<close>

lemma p_c1: "parse_loop 4 \<lparr>use_format = False, is_binary = bin, unicode_lookup = lk\<rparr>
      (bs ''c'' @ bs ''1'') initial_tstate =
     TOk (initial_tstate\<lparr>rindex := 4, literal_slots := [bs ''1''],
        group_slots := [(0, None, Some UPPER, - 1)], slot := 1\<rparr>)"
  by (cases bin) code_simp+

lemma p_C1E: "parse_loop 4 \<lparr>use_format = False, is_binary = bin, unicode_lookup = lk\<rparr>
      (bs ''C'' @ bs ''1'' @ bs ''E'') initial_tstate =
     TOk (initial_tstate\<lparr>rindex := 6, literal_slots := [bs ''1''],
        group_slots := [(0, Some UPPER, None, - 1)], slot := 1\<rparr>)"
  by (cases bin) code_simp+

lemma p_Lc1E: "parse_loop 4 \<lparr>use_format = False, is_binary = bin, unicode_lookup = lk\<rparr>
      (bs ''L'' @ bs ''c'' @ bs ''1'' @ bs ''E'') initial_tstate =
     TOk (initial_tstate\<lparr>rindex := 8, literal_slots := [bs ''1''],
        group_slots := [(0, Some LOWER, Some UPPER, - 1)], slot := 1\<rparr>)"
  by (cases bin) code_simp+

lemma expand_one_group:
  assumes "compile_replacement (match_host m) (bs ''1'') = Inr [PGroup 1]"
    and "parse_loop 4 \<lparr>use_format = False, is_binary = bin, unicode_lookup = lookup_name (match_host m)\<rparr>
      tmpl initial_tstate =
     TOk (initial_tstate\<lparr>rindex := k, literal_slots := [bs ''1''],
        group_slots := [(0, sp, sg, - 1)], slot := 1\<rparr>)"
    and "4 \<le> fuel"
  shows "expand fuel (Some m) (RString bin tmpl) =
     Some (map_sum id Value (expand_slot m
       \<lparr>t_use_format = False, t_pattern_hash = pattern_hash (match_host m), t_original = tmpl,
        t_group_slots = [(0, sp, sg, - 1)], t_groups = [(0, 1)], t_literals = [None]\<rparr> 0 None))"
proof -
  let ?tp = "\<lparr>t_use_format = False, t_pattern_hash = pattern_hash (match_host m), t_original = tmpl,
        t_group_slots = [(0, sp, sg, - 1)], t_groups = [(0, 1)], t_literals = [None]\<rparr>"
  have "replace_template 4 (match_host m) bin tmpl False = Some (Inr ?tp)"
    using assms(1,2) by (simp add: replace_template_def initial_tstate_def bs_def)
  then have r: "replace_template fuel (match_host m) bin tmpl False = Some (Inr ?tp)"
    using assms(3) by (rule replace_template_enough)
  show ?thesis
    by (simp add: expand_def repl_format_def is_string_def apply_replace_backrefs_def r
        expand_template_def split: sum.splits)
qed

text \<open>
  C7. For a match whose group 1 captured \<open>uppercase\<close> (its last capture, which is the one
  a reference without subscript selects), \<open>expand\<close> of the template \<open>\c\1\<close> gives
  \<open>Uppercase\<close> and of \<open>\C\1\E\<close> gives \<open>UPPERCASE\<close>; for a match whose group 1 captured
  \<open>STACKING\<close>, \<open>expand\<close> of \<open>\L\c\1\E\<close> gives \<open>Stacking\<close>. The host's template grammar is any
  grammar that resolves \<open>\1\<close> to group 1; the template is a text or a binary string; every
  budget from 4 on gives the result.
\<close>

theorem case_directives:
  assumes "compile_replacement (match_host m) (bs ''1'') = Inr [PGroup 1]"
    and "captures m 1 = cs @ [''uppercase'']"
    and "compile_replacement (match_host m2) (bs ''1'') = Inr [PGroup 1]"
    and "captures m2 1 = cs2 @ [''STACKING'']"
    and "4 \<le> fuel"
  shows "expand fuel (Some m) (RString bin (bs ''c'' @ bs ''1'')) = Some (Inr (Value ''Uppercase'')) \<and>
         expand fuel (Some m) (RString bin (bs ''C'' @ bs ''1'' @ bs ''E'')) = Some (Inr (Value ''UPPERCASE'')) \<and>
         expand fuel (Some m2) (RString bin (bs ''L'' @ bs ''c'' @ bs ''1'' @ bs ''E'')) =
           Some (Inr (Value ''Stacking''))"
proof -
  have idx: "py_index (xs @ [x]) (- 1) = Some x" for xs :: "string list" and x
    by (simp add: py_index_def nth_append)
  have u1: "py_upper ''u'' = ''U''" "py_upper ''uppercase'' = ''UPPERCASE''"
    "py_lower ''STACKING'' = ''stacking''" "py_upper ''s'' = ''S''"
    by code_simp+
  show ?thesis
    using expand_one_group [OF assms(1) p_c1 assms(5)] expand_one_group [OF assms(1) p_C1E assms(5)]
      expand_one_group [OF assms(3) p_Lc1E assms(5)] assms(2,4)
    by (simp add: expand_slot_def idx u1)
qed

subsection \<open>Subscripts, argument checks\<close>

lemma p_bad: "parse_loop 2 \<lparr>use_format = True, is_binary = bin, unicode_lookup = lk\<rparr>
      ''{1[0o3f]}'' initial_tstate = TErr (ValueError ''Capture index must be an integer!'')"
  by (cases bin) code_simp+

lemma p_37: "parse_loop 2 \<lparr>use_format = True, is_binary = bin, unicode_lookup = lk\<rparr>
      ''{1[37]}'' initial_tstate =
     TOk (initial_tstate\<lparr>rindex := 7, literal_slots := [bs ''g<'', ''1'', ''>''],
        group_slots := [(0, None, None, 37)], slot := 1, manual := True\<rparr>)"
  by (cases bin) code_simp+

lemma py_index_short: "int (length xs) \<le> k \<Longrightarrow> py_index xs k = None"
  by (simp add: py_index_def)

text \<open>
  C9. In format mode, compiling the template \<open>{1[0o3f]}\<close> raises \<open>ValueError\<close> with the
  message "Capture index must be an integer!" (the subscript is read in base 8, where \<open>f\<close>
  is no digit), while \<open>{1[37]}\<close> compiles, to a replacement whose one group slot has the
  capture index 37; expanding that replacement for a match whose group 1 has fewer than 38
  captures raises \<open>IndexError\<close> with the message "'37' is out of range!". The host's
  grammar is any grammar that resolves \<open>\g<1>\<close>, the text the compiler writes for the field,
  to group 1.
\<close>

theorem format_subscript:
  assumes "compile_replacement h (bs ''g<1>'') = Inr [PGroup 1]"
    and "length (captures m 1) < 38" and "2 \<le> fuel"
  shows "compile_replace fuel (Compiled h) (RString bin ''{1[0o3f]}'') FORMAT =
           Some (Inl (ValueError ''Capture index must be an integer!'')) \<and>
         compile_replace fuel (Compiled h) (RString bin ''{1[37]}'') FORMAT =
           Some (Inr (make_replace
             \<lparr>t_use_format = True, t_pattern_hash = pattern_hash h, t_original = ''{1[37]}'',
              t_group_slots = [(0, None, None, 37)], t_groups = [(0, 1)], t_literals = [None]\<rparr>)) \<and>
         expandf fuel (Some m) (RReplace (make_replace
             \<lparr>t_use_format = True, t_pattern_hash = pattern_hash h, t_original = ''{1[37]}'',
              t_group_slots = [(0, None, None, 37)], t_groups = [(0, 1)], t_literals = [None]\<rparr>)) =
           Some (Inl (range_error 37))"
proof (intro conjI)
  have "replace_template 2 h bin ''{1[0o3f]}'' True =
      Some (Inl (ValueError ''Capture index must be an integer!''))"
    by (simp add: replace_template_def p_bad)
  then have "replace_template fuel h bin ''{1[0o3f]}'' True =
      Some (Inl (ValueError ''Capture index must be an integer!''))"
    using assms(3) by (rule replace_template_enough)
  then show "compile_replace fuel (Compiled h) (RString bin ''{1[0o3f]}'') FORMAT =
           Some (Inl (ValueError ''Capture index must be an integer!''))"
    by (simp add: compile_replace_def FORMAT_def)
next
  let ?tp = "\<lparr>t_use_format = True, t_pattern_hash = pattern_hash h, t_original = ''{1[37]}'',
              t_group_slots = [(0, None, None, 37)], t_groups = [(0, 1)], t_literals = [None]\<rparr>"
  have "replace_template 2 h bin ''{1[37]}'' True = Some (Inr ?tp)"
    using assms(1) p_37 [of bin "lookup_name h"]
    by (simp add: replace_template_def initial_tstate_def bs_def)
  then have "replace_template fuel h bin ''{1[37]}'' True = Some (Inr ?tp)"
    using assms(3) by (rule replace_template_enough)
  then show "compile_replace fuel (Compiled h) (RString bin ''{1[37]}'') FORMAT =
           Some (Inr (make_replace ?tp))"
    by (simp add: compile_replace_def FORMAT_def)
next
  let ?tp = "\<lparr>t_use_format = True, t_pattern_hash = pattern_hash h, t_original = ''{1[37]}'',
              t_group_slots = [(0, None, None, 37)], t_groups = [(0, 1)], t_literals = [None]\<rparr>"
  have "py_index (captures m 1) 37 = None"
    using assms(2) by (intro py_index_short) simp
  then show "expandf fuel (Some m) (RReplace (make_replace ?tp)) = Some (Inl (range_error 37))"
    by (simp add: expandf_def repl_format_def make_replace_def apply_replace_backrefs_def
        expand_template_def expand_slot_def)
qed

text \<open>The theorem for the sample host and a match whose group 1 has four captures.\<close>

theorem format_subscript_witness:
  "compile_replacement sample_host (bs ''g<1>'') = Inr [PGroup 1] \<and>
   length (captures (sample_match [''t'', ''e'', ''x'', ''t'']) 1) < 38 \<and>
   compile_replace 2 (Compiled sample_host) (RString False ''{1[0o3f]}'') FORMAT =
     Some (Inl (ValueError ''Capture index must be an integer!'')) \<and>
   expandf 2 (Some (sample_match [''t'', ''e'', ''x'', ''t'']))
     (RReplace (make_replace
       \<lparr>t_use_format = True, t_pattern_hash = pattern_hash sample_host, t_original = ''{1[37]}'',
        t_group_slots = [(0, None, None, 37)], t_groups = [(0, 1)], t_literals = [None]\<rparr>)) =
     Some (Inl (range_error 37)) \<and>
   range_error 37 = IndexError ([CHR 0x27] @ ''37'' @ [CHR 0x27] @ '' is out of range!'')"
proof -
  have h: "compile_replacement sample_host (bs ''g<1>'') = Inr [PGroup 1]"
    by (simp add: sample_host_def)
  have l: "length (captures (sample_match [''t'', ''e'', ''x'', ''t'']) 1) < 38"
    by (simp add: sample_match_def)
  have r: "range_error 37 = IndexError ([CHR 0x27] @ ''37'' @ [CHR 0x27] @ '' is out of range!'')"
    by code_simp
  show ?thesis
    using format_subscript [OF h l order_refl, of False] h l r by simp
qed

text \<open>
  C8 (a defect of the code). \<open>compile_replace\<close> compares \<open>pattern_hash\<close> with the hash of
  the pattern in its branch for a \<open>Replace\<close> object only. Given a \<open>ReplaceTemplate\<close> and no
  flags it returns a \<open>Replace\<close> that carries the template's own hash, whatever the hash of
  the pattern supplied: also when the two differ, no error is raised.
\<close>

theorem template_hash_unchecked:
  "compile_replace fuel (Compiled h) (RTemplate tp) 0 = Some (Inr (make_replace tp)) \<and>
   r_pattern_hash (make_replace tp) = t_pattern_hash tp"
  by (simp add: compile_replace_def make_replace_def)

text \<open>
  C10 (as amended). With a match that is \<open>None\<close>, \<open>expand\<close> and \<open>expandf\<close> raise an error for
  every replacement argument and every budget (also 0: no template is compiled or
  expanded). The error is \<open>ValueError\<close> "Match is None!" when the argument passes the
  function's own check, that is, when it is a string or a compiled replacement of the
  format mode the function is for. The check comes first: a compiled replacement of the
  other mode raises the format-mode \<open>ValueError\<close>, an argument of another type \<open>TypeError\<close>.
\<close>

theorem none_match:
  "expand fuel None r =
     Some (Inl (if repl_format r = Some True
                then ValueError ''Replace should not be compiled as a format replace!''
                else if repl_format r = None \<and> \<not> is_string r
                then TypeError ''Expected string, buffer, or compiled replace!''
                else ValueError ''Match is None!'')) \<and>
   expandf fuel None r =
     Some (Inl (if repl_format r = Some False
                then ValueError ''Replace not compiled as a format replace''
                else if repl_format r = None \<and> \<not> is_string r
                then TypeError ''Expected string, buffer, or compiled replace!''
                else ValueError ''Match is None!''))"
  by (cases "repl_format r")
     (auto simp: expand_def expandf_def apply_replace_backrefs_def)

text \<open>
  C10 as stated fails for a \<open>ReplaceTemplate\<close> compiled in format mode that is given to
  \<open>expand\<close> with a match that is \<open>None\<close>: its \<open>use_format\<close> is read first and the error is
  not "Match is None!".
\<close>

theorem none_match_counterexample:
  "expand 0 None (RTemplate \<lparr>t_use_format = True, t_pattern_hash = 1, t_original = ''x'',
       t_group_slots = [], t_groups = [], t_literals = [Some ''x'']\<rparr>) =
     Some (Inl (ValueError ''Replace should not be compiled as a format replace!'')) \<and>
   ValueError ''Replace should not be compiled as a format replace!'' \<noteq> ValueError ''Match is None!''"
  by (simp add: expand_def repl_format_def)

text \<open>C7 for the sample host and matches whose group 1 has the one capture.\<close>

theorem case_directives_witness:
  "compile_replacement (match_host (sample_match [''uppercase''])) (bs ''1'') = Inr [PGroup 1] \<and>
   captures (sample_match [''uppercase'']) 1 = [] @ [''uppercase''] \<and>
   captures (sample_match [''STACKING'']) 1 = [] @ [''STACKING''] \<and>
   expand 4 (Some (sample_match [''uppercase''])) (RString False (bs ''c'' @ bs ''1'')) =
     Some (Inr (Value ''Uppercase'')) \<and>
   expand 4 (Some (sample_match [''uppercase''])) (RString False (bs ''C'' @ bs ''1'' @ bs ''E'')) =
     Some (Inr (Value ''UPPERCASE'')) \<and>
   expand 4 (Some (sample_match [''STACKING''])) (RString False (bs ''L'' @ bs ''c'' @ bs ''1'' @ bs ''E'')) =
     Some (Inr (Value ''Stacking''))"
proof -
  have h: "compile_replacement (match_host (sample_match cs)) (bs ''1'') = Inr [PGroup 1]" for cs
    by (simp add: sample_match_def sample_host_def)
  have c: "captures (sample_match [x]) 1 = [] @ [x]" for x
    by (simp add: sample_match_def)
  show ?thesis
    using case_directives [where m = "sample_match [''uppercase'']" and cs = "[]"
        and ?m2.0 = "sample_match [''STACKING'']" and ?cs2.0 = "[]" and fuel = 4 and bin = False] h c
    by simp
qed

subsection \<open>Directives in succession\<close>

declare pop_all.simps [simp del]














end
